theory Spec2Isabelle
  imports Complex_Main "HOL-Library.Word"
begin

unbundle bit_operations_syntax

section \<open>The JavaScript primitives the interpreter relies on\<close>

text \<open>
  The interpreter (class \<open>Interpreter\<close>) is written in TypeScript. Its strings are
  modelled as \<open>string\<close>: one \<open>char\<close> per code unit, so the embedding covers program
  texts whose code units are below 256. The built-in string operations used by the
  source (\<open>split\<close>, \<open>join\<close>, \<open>trim\<close>, relational comparison, \<open>Number\<close>) are
  written out below.
\<close>

text \<open>White space removed by \<open>String.prototype.trim\<close>: TAB, LF, VT, FF, CR, SP, NBSP.\<close>

definition isWhiteSpace :: "char \<Rightarrow> bool" where
  "isWhiteSpace c =
     (c = CHR 0x09 \<or> c = CHR 0x0A \<or> c = CHR 0x0B \<or> c = CHR 0x0C \<or> c = CHR 0x0D
      \<or> c = CHR 0x20 \<or> c = CHR 0xA0)"

definition js_trim :: "string \<Rightarrow> string" where
  "js_trim s = rev (dropWhile isWhiteSpace (rev (dropWhile isWhiteSpace s)))"

text \<open>\<open>s.split(c)\<close> for a one-character separator: never empty, \<open>''''.split(c) = ['''']\<close>.\<close>

fun js_split :: "char \<Rightarrow> string \<Rightarrow> string list" where
  "js_split c [] = [[]]"
| "js_split c (x # xs) =
     (if x = c then [] # js_split c xs
      else (case js_split c xs of [] \<Rightarrow> [[x]] | p # ps \<Rightarrow> (x # p) # ps))"

fun js_join :: "string \<Rightarrow> string list \<Rightarrow> string" where
  "js_join sep [] = []"
| "js_join sep [x] = x"
| "js_join sep (x # y # ys) = x @ sep @ js_join sep (y # ys)"

text \<open>Relational comparison of two strings: lexicographic on code units, a proper
  prefix being smaller.\<close>

fun js_str_less :: "string \<Rightarrow> string \<Rightarrow> bool" where
  "js_str_less [] [] = False"
| "js_str_less [] (y # ys) = True"
| "js_str_less (x # xs) [] = False"
| "js_str_less (x # xs) (y # ys) =
     ((of_char x :: nat) < of_char y \<or> (x = y \<and> js_str_less xs ys))"

definition js_str_le :: "string \<Rightarrow> string \<Rightarrow> bool" where
  "js_str_le a b = (a = b \<or> js_str_less a b)"

definition js_str_ge :: "string \<Rightarrow> string \<Rightarrow> bool" where
  "js_str_ge a b = js_str_le b a"

text \<open>The decimal string of an array index, as \<open>for (let c in array)\<close> yields it.\<close>

fun string_of_nat :: "nat \<Rightarrow> string" where
  "string_of_nat n =
     (if n < 10 then [''0123456789'' ! n]
      else string_of_nat (n div 10) @ [''0123456789'' ! (n mod 10)])"

declare string_of_nat.simps [simp del]

definition isDigit :: "char \<Rightarrow> bool" where
  "isDigit c = (48 \<le> (of_char c :: nat) \<and> (of_char c :: nat) \<le> 57)"

definition digitsValue :: "string \<Rightarrow> nat" where
  "digitsValue ds = foldl (\<lambda>a c. 10 * a + (of_char c - 48)) 0 ds"

text \<open>
  A JavaScript number, as far as the interpreter's arithmetic needs it: an integer that a
  double represents exactly, or \<open>NaN\<close>.
\<close>

datatype number = Num int | NaN

text \<open>
  \<open>Number(s)\<close> on a string. Decimal integer literals up to \<open>2^53\<close> in magnitude (white
  space around them trimmed, an optional sign, the empty string being 0) give \<open>Num\<close>;
  a string that cannot start a numeric literal gives \<open>NaN\<close>. Every other string
  (fractions, exponents, hexadecimal, \<open>Infinity\<close>, magnitudes that a double rounds) is
  outside the embedding: \<open>None\<close>.
\<close>

definition Number_js :: "string \<Rightarrow> number option" where
  "Number_js s =
     (let t = js_trim s in
      if t = [] then Some (Num 0)
      else
        let neg = (hd t = CHR ''-'');
            u = (if hd t = CHR ''-'' \<or> hd t = CHR ''+'' then tl t else t)
        in (case u of
              [] \<Rightarrow> Some NaN
            | d # _ \<Rightarrow>
                if list_all isDigit u then
                  (if digitsValue u \<le> 2 ^ 53
                   then Some (Num (if neg then - int (digitsValue u) else int (digitsValue u)))
                   else None)
                else if isDigit d \<or> d = CHR ''.'' \<or> d = CHR ''I'' then None
                else Some NaN))"

text \<open>\<open>ToInt32\<close>, applied by the bitwise operators and by stores into an \<open>Int32Array\<close>.\<close>

fun ToInt32 :: "number \<Rightarrow> 32 word" where
  "ToInt32 (Num i) = word_of_int i"
| "ToInt32 NaN = 0"

section \<open>Data model\<close>

datatype byteType = INSTRUCTION | DATA

record byte =
  val :: int
  type :: byteType

record Statment =
  val :: string
  byteSize :: int

record Label =
  label :: string
  line :: nat
  address :: int

text \<open>
  The two error classes of the source carry a message; the constructors below stand for
  the message templates, with the 1-based line number and the quoted text as arguments.
  \<open>TypeError\<close> and \<open>RangeError\<close> are the built-in exceptions the code can run into
  (reading a property of \<open>undefined\<close>, an invalid array length). \<open>Unmodelled\<close> marks an
  execution that leaves the fragment of JavaScript arithmetic covered here; nothing is
  stated about the program from that point on.
\<close>

datatype preprocessingError =
    LabelDefinedTwice nat string
  | LabelNotAlphaNumeric nat string
  | UnrecognizedInstructionName nat string
  | DataAfterCode nat string
  | NoNumber

datatype runtimeError =
    TooManyArguments nat string
  | ExpectedComma nat string
  | UndefinedLabel nat string
  | OnlyOneArgument nat string
  | InvalidJumpTarget nat int
  | UnrecognizedInstruction nat string
  | ExecutionLimit

datatype error =
    PreprocessingError preprocessingError
  | RuntimeError runtimeError
  | TypeError
  | RangeError
  | Unmodelled

section \<open>Big-endian encoding of 32-bit values\<close>

text \<open>\<open>numberToBytes\<close>: \<open>(n >> 24) & 0xff\<close>, \<open>(n >> 16) & 0xff\<close>, \<open>(n >> 8) & 0xff\<close>,
  \<open>n & 0xff\<close>, each tagged \<open>DATA\<close>.\<close>

definition numberToBytes :: "number \<Rightarrow> byte list" where
  "numberToBytes n =
     [\<lparr>byte.val = sint (signed_drop_bit 24 (ToInt32 n) AND 0xff), type = DATA\<rparr>,
      \<lparr>byte.val = sint (signed_drop_bit 16 (ToInt32 n) AND 0xff), type = DATA\<rparr>,
      \<lparr>byte.val = sint (signed_drop_bit 8 (ToInt32 n) AND 0xff), type = DATA\<rparr>,
      \<lparr>byte.val = sint (ToInt32 n AND 0xff), type = DATA\<rparr>]"

text \<open>An array element read by index: \<open>None\<close> is \<open>undefined\<close>.\<close>

definition elemAt :: "'a option list \<Rightarrow> nat \<Rightarrow> 'a option" where
  "elemAt xs i = (if i < length xs then xs ! i else None)"

text \<open>\<open>bytesToNumber\<close> reads \<open>bytes[3].val\<close>, \<open>bytes[2].val\<close>, \<open>bytes[1].val\<close>,
  \<open>bytes[0].val\<close>; a missing element makes the property access throw a \<open>TypeError\<close>.
  The result is \<open>(a << 24) | (b << 16) | (c << 8) | d\<close>, a signed 32-bit value.\<close>

definition bytesToNumber :: "byte option list \<Rightarrow> error + int" where
  "bytesToNumber bs =
     (case (elemAt bs 3, elemAt bs 2, elemAt bs 1, elemAt bs 0) of
        (Some d, Some c, Some b, Some a) \<Rightarrow>
          Inr (sint (push_bit 24 (ToInt32 (Num (byte.val a)))
                     OR push_bit 16 (ToInt32 (Num (byte.val b)))
                     OR push_bit 8 (ToInt32 (Num (byte.val c)))
                     OR ToInt32 (Num (byte.val d))))
      | _ \<Rightarrow> Inl TypeError)"

section \<open>The interpreter\<close>

text \<open>The array \<open>keywords\<close> of the source; the name is a reserved word here, hence
  \<open>keywords_list\<close>.\<close>

definition keywords_list :: "string list" where
  "keywords_list = [''A'', ''AR'', ''S'', ''SR'', ''M'', ''MR'', ''D'', ''DR'', ''C'', ''CR'',
               ''L'', ''LR'', ''ST'', ''LA'', ''J'', ''JP'', ''JZ'', ''JN'', ''DC'', ''DS'']"

definition MAX_LINES :: nat where
  "MAX_LINES = 1000"

definition rrKeywords :: "string list" where
  "rrKeywords = [''AR'', ''SR'', ''MR'', ''DR'', ''CR'', ''LR'']"

definition rmKeywords :: "string list" where
  "rmKeywords = [''A'', ''S'', ''M'', ''D'', ''C'', ''L'', ''ST'', ''LA'']"

text \<open>The bit positions \<open>FLAGS.ZF\<close> and \<open>FLAGS.SF\<close>.\<close>

definition ZF :: nat where
  "ZF = 6"

definition SF :: nat where
  "SF = 7"

text \<open>
  The fields of the class. \<open>registers\<close> is the \<open>Int32Array(16)\<close>; \<open>eflags\<close> only ever
  holds results of 32-bit bitwise operators. A thrown exception leaves the object as it
  was at the \<open>throw\<close>, so a failing operation returns the error together with that state.
\<close>

record Interpreter =
  statements :: "Statment list"
  registers :: "32 word list"
  eflags :: "32 word"
  bytes :: "byte list"
  labels :: "Label list"
  currentLine :: nat
  executedLines :: nat
  currentMemoryAddress :: int

type_synonym 'a result = "(error \<times> Interpreter) + 'a"

text \<open>The constructor: one statement per line of \<open>code.split('\n')\<close>.\<close>

definition newInterpreter :: "string \<Rightarrow> Interpreter" where
  "newInterpreter code =
     \<lparr>statements = map (\<lambda>v. \<lparr>val = v, byteSize = 0\<rparr>) (js_split (CHR 0x0A) code),
      registers = replicate 16 0,
      eflags = 0,
      bytes = [],
      labels = [],
      currentLine = 0,
      executedLines = 0,
      currentMemoryAddress = 0\<rparr>"

definition isAtEnd :: "Interpreter \<Rightarrow> bool" where
  "isAtEnd s = (length (statements s) \<le> currentLine s)"

definition splitStatment :: "string \<Rightarrow> string list" where
  "splitStatment stmt =
     filter (\<lambda>token. length token > 0)
       (map js_trim (js_split (CHR '' '') (js_join '' , '' (js_split (CHR '','') stmt))))"

definition removeComments :: "string \<Rightarrow> string" where
  "removeComments v =
     (case js_trim v of
        [] \<Rightarrow> []
      | c # cs \<Rightarrow>
          if c = CHR ''#'' then []
          else (case js_split (CHR ''#'') (c # cs) of [] \<Rightarrow> [] | p # ps \<Rightarrow> p))"

definition isLabelDefined :: "Interpreter \<Rightarrow> string \<Rightarrow> bool" where
  "isLabelDefined s l = (find (\<lambda>currentLabel. label currentLabel = l) (labels s) \<noteq> None)"

text \<open>\<open>val.match(/-?\d+/)\<close>: the leftmost match, digits taken greedily.\<close>

fun matchNumber :: "string \<Rightarrow> string option" where
  "matchNumber [] = None"
| "matchNumber (c # cs) =
     (if isDigit c then Some (takeWhile isDigit (c # cs))
      else if c = CHR ''-'' \<and> cs \<noteq> [] \<and> isDigit (hd cs) then Some (c # takeWhile isDigit cs)
      else matchNumber cs)"

text \<open>\<open>getNumberInParen\<close>: without a match, \<open>Number(undefined)\<close> is \<open>NaN\<close>.\<close>

definition getNumberInParen :: "string \<Rightarrow> error + number" where
  "getNumberInParen v =
     (let res = matchNumber v in
      if length v < 1 then Inl (PreprocessingError NoNumber)
      else (case res of
              None \<Rightarrow> Inr NaN
            | Some m \<Rightarrow> (case Number_js m of None \<Rightarrow> Inl Unmodelled | Some n \<Rightarrow> Inr n)))"

text \<open>
  \<open>isAlphaNumeric\<close> loops with \<open>for (let c in val.split(''))\<close>, so \<open>c\<close> ranges over the
  keys of the array, the index strings \<open>"0"\<close>, \<open>"1"\<close>, ..., and it is these that are
  compared with \<open>'a'\<close>, \<open>'z'\<close>, \<open>'A'\<close>, \<open>'Z'\<close>, \<open>'0'\<close>, \<open>'9'\<close>. \<open>indexAccepted\<close> is
  the condition whose failure makes the loop return \<open>false\<close>.
\<close>

definition indexAccepted :: "string \<Rightarrow> bool" where
  "indexAccepted c =
     ((js_str_ge c ''a'' \<and> js_str_le c ''z'')
      \<or> (js_str_ge c ''A'' \<and> js_str_le c ''Z'')
      \<or> (js_str_ge c ''0'' \<and> js_str_le c ''9''))"

definition isAlphaNumeric :: "string \<Rightarrow> bool" where
  "isAlphaNumeric v = list_all indexAccepted (map string_of_nat [0..<length v])"

definition isInstructionRR :: "string \<Rightarrow> bool" where
  "isInstructionRR instruction = (instruction \<in> set rrKeywords)"

definition isInstructionRM :: "string \<Rightarrow> bool" where
  "isInstructionRM instruction = (instruction \<in> set rmKeywords)"

definition getSizeOfInstruction :: "string \<Rightarrow> int" where
  "getSizeOfInstruction instruction = (if isInstructionRR instruction then 2 else 4)"

subsection \<open>Registers, flags and memory\<close>

text \<open>Reading \<open>registers[r]\<close>: \<open>None\<close> is \<open>undefined\<close> (an index that is not one of
  0..15). A store to such an index is ignored; a stored value goes through \<open>ToInt32\<close>.\<close>

fun regRead :: "32 word list \<Rightarrow> number \<Rightarrow> int option" where
  "regRead rs (Num i) = (if 0 \<le> i \<and> i < int (length rs) then Some (sint (rs ! nat i)) else None)"
| "regRead rs NaN = None"

fun regWrite :: "32 word list \<Rightarrow> number \<Rightarrow> number \<Rightarrow> 32 word list" where
  "regWrite rs (Num i) v = (if 0 \<le> i \<and> i < int (length rs) then rs[nat i := ToInt32 v] else rs)"
| "regWrite rs NaN v = rs"

text \<open>\<open>undefined\<close> in a numeric context is \<open>NaN\<close>.\<close>

fun toNumber :: "int option \<Rightarrow> number" where
  "toNumber None = NaN"
| "toNumber (Some i) = Num i"

fun num_add :: "number \<Rightarrow> number \<Rightarrow> number" where
  "num_add (Num a) (Num b) = Num (a + b)"
| "num_add _ _ = NaN"

fun num_sub :: "number \<Rightarrow> number \<Rightarrow> number" where
  "num_sub (Num a) (Num b) = Num (a - b)"
| "num_sub _ _ = NaN"

text \<open>A product of two 32-bit values is exact in a double up to \<open>2^53\<close>; beyond that the
  double rounds, which the embedding does not follow.\<close>

fun num_mul :: "number \<Rightarrow> number \<Rightarrow> number option" where
  "num_mul (Num a) (Num b) = (if \<bar>a * b\<bar> \<le> 2 ^ 53 then Some (Num (a * b)) else None)"
| "num_mul _ _ = Some NaN"

text \<open>
  \<open>Math.floor(a / b)\<close> for 32-bit \<open>a\<close>, \<open>b\<close>. With \<open>b \<noteq> 0\<close> the double quotient is
  within \<open>2^-22 / \<bar>b\<bar>\<close> of the true one, which is either an integer or at least
  \<open>1 / \<bar>b\<bar>\<close> away from one, so the floor is that of the true quotient. With \<open>b = 0\<close>
  the quotient is an infinity or \<open>NaN\<close>; the only consumer is the store into the
  register, where \<open>ToInt32\<close> sends all three to 0, so \<open>NaN\<close> stands for them.
\<close>

fun num_floor_div :: "number \<Rightarrow> number \<Rightarrow> number" where
  "num_floor_div (Num a) (Num b) = (if b = 0 then NaN else Num (a div b))"
| "num_floor_div _ _ = NaN"

fun num_is_zero :: "number \<Rightarrow> bool" where
  "num_is_zero (Num a) = (a = 0)"
| "num_is_zero NaN = False"

fun num_is_negative :: "number \<Rightarrow> bool" where
  "num_is_negative (Num a) = (a < 0)"
| "num_is_negative NaN = False"

definition updateEflags :: "Interpreter \<Rightarrow> number \<Rightarrow> Interpreter" where
  "updateEflags s num =
     s\<lparr>eflags := (0 OR (if num_is_zero num then push_bit ZF 1 else 0))
                   OR (if num_is_negative num then push_bit SF 1 else 0)\<rparr>"

text \<open>The two-statement pattern \<open>this.registers[r1] = v; this.updateEflags(this.registers[r1])\<close>.\<close>

definition storeAndFlag :: "Interpreter \<Rightarrow> number \<Rightarrow> number \<Rightarrow> Interpreter" where
  "storeAndFlag s r1 v =
     (let s1 = s\<lparr>registers := regWrite (registers s) r1 v\<rparr>
      in updateEflags s1 (toNumber (regRead (registers s1) r1)))"

text \<open>\<open>bytes[k]\<close> for an address \<open>k\<close> that may be \<open>undefined\<close> or out of range.\<close>

fun byteAt :: "byte list \<Rightarrow> int option \<Rightarrow> byte option" where
  "byteAt bs None = None"
| "byteAt bs (Some k) = (if 0 \<le> k \<and> k < int (length bs) then Some (bs ! nat k) else None)"

fun addrPlus :: "int option \<Rightarrow> int \<Rightarrow> int option" where
  "addrPlus None k = None"
| "addrPlus (Some a) k = Some (a + k)"

definition getNumberFromMemory :: "Interpreter \<Rightarrow> int option \<Rightarrow> error + int" where
  "getNumberFromMemory s addr =
     bytesToNumber [byteAt (bytes s) addr, byteAt (bytes s) (addrPlus addr 1),
                    byteAt (bytes s) (addrPlus addr 2), byteAt (bytes s) (addrPlus addr 3)]"

text \<open>
  \<open>setNumberInMemory\<close> assigns \<open>bytes[addr]\<close> .. \<open>bytes[addr + 3]\<close>. For an address from 0
  up to the length of the array this overwrites or appends without a gap. Any other
  address would give the array holes or non-index properties: outside the embedding.
\<close>

definition setNumberInMemory :: "Interpreter \<Rightarrow> int option \<Rightarrow> number \<Rightarrow> Interpreter result" where
  "setNumberInMemory s addr num =
     (let data = numberToBytes num in
      case addr of
        None \<Rightarrow> Inl (Unmodelled, s)
      | Some a \<Rightarrow>
          if 0 \<le> a \<and> a \<le> int (length (bytes s)) \<and> a + 3 < 2 ^ 32 - 1
          then Inr (s\<lparr>bytes := take (nat a) (bytes s) @ data @ drop (nat a + 4) (bytes s)\<rparr>)
          else Inl (Unmodelled, s))"

text \<open>\<open>getMemoryAddr\<close>: \<open>/^\d+$/\<close>, then \<open>/^0\(\d+\)$/\<close>, then the label table.\<close>

definition getMemoryAddr :: "Interpreter \<Rightarrow> string \<Rightarrow> error + int option" where
  "getMemoryAddr s param =
     (if param \<noteq> [] \<and> list_all isDigit param then
        (case Number_js param of Some (Num n) \<Rightarrow> Inr (Some n) | _ \<Rightarrow> Inl Unmodelled)
      else if take 2 param = ''0('' \<and> 4 \<le> length param \<and> last param = CHR '')''
              \<and> list_all isDigit (butlast (drop 2 param)) then
        (case Number_js (butlast (drop 2 param)) of
           Some r \<Rightarrow> Inr (regRead (registers s) r)
         | None \<Rightarrow> Inl Unmodelled)
      else
        (case find (\<lambda>l. label l = param) (labels s) of
           None \<Rightarrow> Inl (RuntimeError (UndefinedLabel (currentLine s + 1) param))
         | Some l \<Rightarrow> Inr (Some (address l))))"

text \<open>The loop of \<open>getStatmentLine\<close>; \<open>None\<close> when it throws.\<close>

fun getStatmentLine_loop :: "Statment list \<Rightarrow> nat \<Rightarrow> int \<Rightarrow> int option \<Rightarrow> nat option" where
  "getStatmentLine_loop [] i stmtAddr addr = None"
| "getStatmentLine_loop (st # sts) i stmtAddr addr =
     (if byteSize st > 0 \<and> addr = Some stmtAddr then Some i
      else if (case addr of None \<Rightarrow> False | Some a \<Rightarrow> a < stmtAddr) then None
      else getStatmentLine_loop sts (i + 1) (stmtAddr + byteSize st) addr)"

text \<open>Both \<open>throw\<close> statements build the same message, calling \<open>addr.toString(16)\<close>: on
  \<open>undefined\<close> that call itself throws a \<open>TypeError\<close>.\<close>

definition getStatmentLine :: "Interpreter \<Rightarrow> int option \<Rightarrow> error + nat" where
  "getStatmentLine s addr =
     (case getStatmentLine_loop (statements s) 0 0 addr of
        Some i \<Rightarrow> Inr i
      | None \<Rightarrow>
          (case addr of
             None \<Rightarrow> Inl TypeError
           | Some a \<Rightarrow> Inl (RuntimeError (InvalidJumpTarget (currentLine s + 1) a))))"

subsection \<open>The layout pass\<close>

text \<open>
  \<open>this.bytes = [...this.bytes, ...extra]\<close>. An array holds at most \<open>2^32 - 1\<close> elements;
  beyond that the engine throws a \<open>RangeError\<close> (if it has not run out of memory before,
  which the embedding does not follow). The elements made by \<open>fill\<close> and by the \<open>DC\<close>
  loop share one object each, but no code mutates a byte object in place (stores replace
  the array element), so the sharing cannot be observed and bytes are plain values.
\<close>

definition appendBytes :: "Interpreter \<Rightarrow> byte list \<Rightarrow> Interpreter result" where
  "appendBytes s extra =
     (if length (bytes s) + length extra \<le> 2 ^ 32 - 1 then Inr (s\<lparr>bytes := bytes s @ extra\<rparr>)
      else Inl (RangeError, s))"

text \<open>The loop \<open>for (let i = 0; i < numberOfMemoryCells / 4; i++)\<close> of case \<open>'DC'\<close>.\<close>

fun fillCells :: "nat \<Rightarrow> byte list \<Rightarrow> Interpreter \<Rightarrow> Interpreter result" where
  "fillCells 0 numberInBytes s = Inr s"
| "fillCells (Suc k) numberInBytes s =
     (case appendBytes s numberInBytes of
        Inl e \<Rightarrow> Inl e
      | Inr s' \<Rightarrow> fillCells k numberInBytes s')"

text \<open>
  Case \<open>'DC'\<close> of the switch. With two arguments the count is \<open>Number(args[0])\<close>; a count
  that is not an integer would make the address non-integral or \<open>NaN\<close>, and an address
  beyond \<open>2^53\<close> in magnitude is no longer exact: both are outside the embedding. With
  three or more arguments the case does nothing.
\<close>

definition preprocess_DC :: "string list \<Rightarrow> Interpreter \<Rightarrow> Interpreter result" where
  "preprocess_DC args s =
     (if length args = 2 then
        (case getNumberInParen (args ! 1) of
           Inl e \<Rightarrow> Inl (e, s)
         | Inr number \<Rightarrow>
             (case Number_js (args ! 0) of
                Some (Num c) \<Rightarrow>
                  (let numberOfMemoryCells = c * 4;
                       s1 = s\<lparr>currentMemoryAddress := currentMemoryAddress s + numberOfMemoryCells\<rparr>
                   in if \<bar>currentMemoryAddress s1\<bar> \<le> 2 ^ 53
                      then fillCells (nat c) (numberToBytes number) s1
                      else Inl (Unmodelled, s1))
              | _ \<Rightarrow> Inl (Unmodelled, s)))
      else if length args = 1 then
        (case getNumberInParen (args ! 0) of
           Inl e \<Rightarrow> Inl (e, s)
         | Inr number \<Rightarrow>
             (case appendBytes s (numberToBytes number) of
                Inl e \<Rightarrow> Inl e
              | Inr s1 \<Rightarrow> Inr (s1\<lparr>currentMemoryAddress := currentMemoryAddress s1 + 4\<rparr>)))
      else Inr s)"

text \<open>
  Case \<open>'DS'\<close>. \<open>new Array(n)\<close> throws a \<open>RangeError\<close> unless \<open>n\<close> is an integer from 0
  to \<open>2^32 - 1\<close>.
\<close>

definition preprocess_DS :: "string list \<Rightarrow> Interpreter \<Rightarrow> Interpreter result" where
  "preprocess_DS args s =
     (case (if length args = 2
            then (case Number_js (args ! 0) of
                    None \<Rightarrow> None
                  | Some NaN \<Rightarrow> Some NaN
                  | Some (Num c) \<Rightarrow> Some (Num (c * 4)))
            else Some (Num 4)) of
        None \<Rightarrow> Inl (Unmodelled, s)
      | Some NaN \<Rightarrow> Inl (RangeError, s)
      | Some (Num numberOfMemoryCells) \<Rightarrow>
          if 0 \<le> numberOfMemoryCells \<and> numberOfMemoryCells \<le> 2 ^ 32 - 1 then
            (case appendBytes s (replicate (nat numberOfMemoryCells) \<lparr>byte.val = 0, type = DATA\<rparr>) of
               Inl e \<Rightarrow> Inl e
             | Inr s1 \<Rightarrow>
                 Inr (s1\<lparr>currentMemoryAddress := currentMemoryAddress s1 + numberOfMemoryCells\<rparr>))
          else Inl (RangeError, s))"

text \<open>The \<open>default\<close> case: an executable instruction.\<close>

definition preprocess_default :: "string \<Rightarrow> Interpreter \<Rightarrow> Interpreter result" where
  "preprocess_default instruction s =
     (let instructionSize = getSizeOfInstruction instruction;
          s1 = s\<lparr>currentMemoryAddress := currentMemoryAddress s + instructionSize\<rparr>
      in appendBytes s1 (replicate (nat instructionSize) \<lparr>byte.val = 0, type = INSTRUCTION\<rparr>))"

text \<open>The block "Add label to environment".\<close>

definition addLabel :: "string list \<Rightarrow> Interpreter \<Rightarrow> Interpreter result" where
  "addLabel tokens s =
     (if length tokens > 1 \<and> tokens ! 1 \<in> set keywords_list then
        (if isLabelDefined s (tokens ! 0) then
           Inl (PreprocessingError (LabelDefinedTwice (currentLine s + 1) (tokens ! 0)), s)
         else if \<not> isAlphaNumeric (tokens ! 0) then
           Inl (PreprocessingError (LabelNotAlphaNumeric (currentLine s + 1) (tokens ! 0)), s)
         else
           Inr (s\<lparr>labels := labels s @
                   [\<lparr>label = tokens ! 0, line = currentLine s,
                     address = currentMemoryAddress s\<rparr>]\<rparr>))
      else Inr s)"

text \<open>
  One iteration of the \<open>while\<close> loop of \<open>preprocess\<close>, for a state that is not at the end.
  The local \<open>isDataSection\<close> is passed in and returned. When the statement has no
  operand token, \<open>tokens[currentIndex]\<close> is \<open>undefined\<close> and \<open>.split\<close> throws a
  \<open>TypeError\<close>.
\<close>

definition preprocessStatement :: "bool \<Rightarrow> Interpreter \<Rightarrow> (bool \<times> Interpreter) result" where
  "preprocessStatement isDataSection s =
     (let tokens = splitStatment (removeComments (val (statements s ! currentLine s))) in
      if length tokens = 0 then Inr (isDataSection, s\<lparr>currentLine := currentLine s + 1\<rparr>)
      else
        let previousMemoryAddress = currentMemoryAddress s in
        case addLabel tokens s of
          Inl e \<Rightarrow> Inl e
        | Inr s1 \<Rightarrow>
            let labelled = (length tokens > 1 \<and> tokens ! 1 \<in> set keywords_list);
                instruction = (if labelled then tokens ! 1 else tokens ! 0);
                currentIndex = (if labelled then 2 else 1 :: nat)
            in
            if instruction \<notin> set keywords_list then
              Inl (PreprocessingError (UnrecognizedInstructionName (currentLine s1 + 1) instruction), s1)
            else if length tokens \<le> currentIndex then Inl (TypeError, s1)
            else
              let args = js_split (CHR ''*'') (tokens ! currentIndex);
                  isData = (instruction = ''DC'' \<or> instruction = ''DS'')
              in
              if isData \<and> \<not> isDataSection then
                Inl (PreprocessingError (DataAfterCode (currentLine s1 + 1) (tokens ! 0)), s1)
              else
                (case (if instruction = ''DC'' then preprocess_DC args s1
                       else if instruction = ''DS'' then preprocess_DS args s1
                       else preprocess_default instruction s1) of
                   Inl e \<Rightarrow> Inl e
                 | Inr s2 \<Rightarrow>
                     Inr (isData \<and> isDataSection,
                          s2\<lparr>statements := (statements s2)
                               [currentLine s2 := (statements s2 ! currentLine s2)
                                  \<lparr>byteSize := currentMemoryAddress s2 - previousMemoryAddress\<rparr>],
                             currentLine := currentLine s2 + 1\<rparr>)))"

text \<open>What one iteration leaves alone: the statement count, and the line advances by one.
  This is what makes the loop of \<open>preprocess\<close> terminate.\<close>

lemma appendBytes_frame:
  "appendBytes s extra = Inr s' \<Longrightarrow>
     statements s' = statements s \<and> currentLine s' = currentLine s
     \<and> executedLines s' = executedLines s"
  by (auto simp: appendBytes_def split: if_splits)

lemma fillCells_frame:
  "fillCells k bs s = Inr s' \<Longrightarrow>
     statements s' = statements s \<and> currentLine s' = currentLine s
     \<and> executedLines s' = executedLines s"
proof (induction k arbitrary: s)
  case 0
  then show ?case by simp
next
  case (Suc k)
  then show ?case
    by (auto split: sum.splits dest!: appendBytes_frame)
qed

lemma preprocess_DC_frame:
  "preprocess_DC args s = Inr s' \<Longrightarrow>
     statements s' = statements s \<and> currentLine s' = currentLine s
     \<and> executedLines s' = executedLines s"
  unfolding preprocess_DC_def Let_def
  by (auto split: if_splits sum.splits option.splits number.splits
           dest!: appendBytes_frame fillCells_frame)

lemma preprocess_DS_frame:
  "preprocess_DS args s = Inr s' \<Longrightarrow>
     statements s' = statements s \<and> currentLine s' = currentLine s
     \<and> executedLines s' = executedLines s"
  unfolding preprocess_DS_def
  by (auto split: if_splits sum.splits option.splits number.splits
           dest!: appendBytes_frame)

lemma preprocess_default_frame:
  "preprocess_default instruction s = Inr s' \<Longrightarrow>
     statements s' = statements s \<and> currentLine s' = currentLine s
     \<and> executedLines s' = executedLines s"
  unfolding preprocess_default_def Let_def
  by (auto dest!: appendBytes_frame)

lemma addLabel_frame:
  "addLabel tokens s = Inr s' \<Longrightarrow>
     statements s' = statements s \<and> currentLine s' = currentLine s
     \<and> executedLines s' = executedLines s"
  by (auto simp: addLabel_def split: if_splits)

lemma preprocessStatement_advances:
  assumes "preprocessStatement d s = Inr (d', s')"
  shows "length (statements s') = length (statements s) \<and> currentLine s' = currentLine s + 1
         \<and> executedLines s' = executedLines s"
  using assms unfolding preprocessStatement_def Let_def
  by (auto split: if_splits sum.splits
           dest!: addLabel_frame preprocess_DC_frame preprocess_DS_frame
                  preprocess_default_frame)

text \<open>The \<open>while (!this.isAtEnd())\<close> loop of \<open>preprocess\<close>.\<close>

function preprocess_loop :: "bool \<Rightarrow> Interpreter \<Rightarrow> Interpreter result" where
  "preprocess_loop isDataSection s =
     (if \<not> isAtEnd s then
        (case preprocessStatement isDataSection s of
           Inl e \<Rightarrow> Inl e
         | Inr (isDataSection', s') \<Rightarrow> preprocess_loop isDataSection' s')
      else Inr s)"
  by pat_completeness auto
termination
proof (relation "measure (\<lambda>(d, s). length (statements s) - currentLine s)")
  show "wf (measure (\<lambda>(d, s). length (statements s) - currentLine s))"
    by simp
next
  fix isDataSection :: bool and s :: Interpreter and x2 :: "bool \<times> Interpreter"
    and isDataSection' :: bool and s' :: Interpreter
  assume "\<not> isAtEnd s" and "preprocessStatement isDataSection s = Inr x2"
    and "(isDataSection', s') = x2"
  then show "((isDataSection', s'), (isDataSection, s))
             \<in> measure (\<lambda>(d, s). length (statements s) - currentLine s)"
    using preprocessStatement_advances [of isDataSection s isDataSection' s']
    by (auto simp: isAtEnd_def)
qed

declare preprocess_loop.simps [simp del]

definition preprocess :: "Interpreter \<Rightarrow> Interpreter result" where
  "preprocess s =
     (case preprocess_loop True s of
        Inl e \<Rightarrow> Inl e
      | Inr s' \<Rightarrow> Inr (s'\<lparr>currentLine := 0, currentMemoryAddress := 0\<rparr>))"

subsection \<open>The execution engine\<close>

text \<open>The block "Register-register instructions" of \<open>interpretNextLine\<close>, entered when
  \<open>isInstructionRR\<close> holds; \<open>currentIndex\<close> points at the first operand.\<close>

definition registerRegister :: "string \<Rightarrow> string list \<Rightarrow> nat \<Rightarrow> Interpreter \<Rightarrow> Interpreter result" where
  "registerRegister instruction tokens currentIndex s =
     (if int (length tokens) - int currentIndex \<noteq> 3 then
        Inl (RuntimeError (TooManyArguments (currentLine s + 1) instruction), s)
      else
        (case Number_js (tokens ! currentIndex) of
           None \<Rightarrow> Inl (Unmodelled, s)
         | Some r1 \<Rightarrow>
             if tokens ! (currentIndex + 1) \<noteq> '','' then
               Inl (RuntimeError (ExpectedComma (currentLine s + 1) instruction), s)
             else
               (case Number_js (tokens ! (currentIndex + 2)) of
                  None \<Rightarrow> Inl (Unmodelled, s)
                | Some r2 \<Rightarrow>
                    let a = toNumber (regRead (registers s) r1);
                        b = toNumber (regRead (registers s) r2)
                    in
                    if instruction = ''AR'' then Inr (storeAndFlag s r1 (num_add a b))
                    else if instruction = ''SR'' then Inr (storeAndFlag s r1 (num_sub a b))
                    else if instruction = ''MR'' then
                      (case num_mul a b of
                         None \<Rightarrow> Inl (Unmodelled, s)
                       | Some p \<Rightarrow> Inr (storeAndFlag s r1 p))
                    else if instruction = ''DR'' then Inr (storeAndFlag s r1 (num_floor_div a b))
                    else if instruction = ''CR'' then Inr (updateEflags s (num_sub a b))
                    else if instruction = ''LR'' then Inr (storeAndFlag s r1 b)
                    else Inr s)))"

text \<open>The lines of case \<open>'C'\<close> after the memory word \<open>m\<close> has been read.\<close>

definition compareMemory :: "Interpreter \<Rightarrow> number \<Rightarrow> int \<Rightarrow> Interpreter" where
  "compareMemory s a m =
     (let s1 = updateEflags s (num_sub a (Num m));
          s2 = s1\<lparr>eflags := eflags s1 XOR (push_bit ZF 1 OR push_bit SF 1)\<rparr>;
          s3 = s2\<lparr>eflags := eflags s2 OR (if num_is_zero a then push_bit ZF 1 else 0)\<rparr>
      in s3\<lparr>eflags := eflags s3 OR (if num_is_negative a then push_bit SF 1 else 0)\<rparr>)"

text \<open>The block "Register-memory instructions", entered when \<open>isInstructionRM\<close> holds.\<close>

definition registerMemory :: "string \<Rightarrow> string list \<Rightarrow> nat \<Rightarrow> Interpreter \<Rightarrow> Interpreter result" where
  "registerMemory instruction tokens currentIndex s =
     (if int (length tokens) - int currentIndex \<noteq> 3 then
        Inl (RuntimeError (TooManyArguments (currentLine s + 1) instruction), s)
      else
        (case Number_js (tokens ! currentIndex) of
           None \<Rightarrow> Inl (Unmodelled, s)
         | Some r1 \<Rightarrow>
             if tokens ! (currentIndex + 1) \<noteq> '','' then
               Inl (RuntimeError (ExpectedComma (currentLine s + 1) instruction), s)
             else
               (case getMemoryAddr s (tokens ! (currentIndex + 2)) of
                  Inl e \<Rightarrow> Inl (e, s)
                | Inr addr \<Rightarrow>
                    let a = toNumber (regRead (registers s) r1) in
                    if instruction = ''ST'' then
                      (case setNumberInMemory s addr a of
                         Inl e \<Rightarrow> Inl e
                       | Inr s1 \<Rightarrow> Inr (updateEflags s1 a))
                    else if instruction = ''LA'' then Inr (storeAndFlag s r1 (toNumber addr))
                    else if instruction \<in> set [''A'', ''S'', ''M'', ''D'', ''C'', ''L''] then
                      (case getNumberFromMemory s addr of
                         Inl e \<Rightarrow> Inl (e, s)
                       | Inr m \<Rightarrow>
                           if instruction = ''A'' then Inr (storeAndFlag s r1 (num_add a (Num m)))
                           else if instruction = ''S'' then Inr (storeAndFlag s r1 (num_sub a (Num m)))
                           else if instruction = ''M'' then
                             (case num_mul a (Num m) of
                                None \<Rightarrow> Inl (Unmodelled, s)
                              | Some p \<Rightarrow> Inr (storeAndFlag s r1 p))
                           else if instruction = ''D'' then
                             Inr (storeAndFlag s r1 (num_floor_div a (Num m)))
                           else if instruction = ''C'' then Inr (compareMemory s a m)
                           else Inr (storeAndFlag s r1 (Num m)))
                    else Inr s)))"

text \<open>
  The block for mnemonics starting with \<open>J\<close>. The result says whether the method
  returned from inside the switch (a taken jump) or goes on to the fall-through.
  \<open>getStatmentLine\<close> only returns for a defined address.
\<close>

definition jump :: "string \<Rightarrow> string list \<Rightarrow> nat \<Rightarrow> Interpreter \<Rightarrow> (bool \<times> Interpreter) result" where
  "jump instruction tokens currentIndex s =
     (if int (length tokens) - int currentIndex \<noteq> 1 then
        Inl (RuntimeError (OnlyOneArgument (currentLine s + 1) instruction), s)
      else
        (case getMemoryAddr s (tokens ! currentIndex) of
           Inl e \<Rightarrow> Inl (e, s)
         | Inr addr \<Rightarrow>
             (case getStatmentLine s addr of
                Inl e \<Rightarrow> Inl (e, s)
              | Inr statmentLine \<Rightarrow>
                  (case addr of
                     None \<Rightarrow> Inl (Unmodelled, s)
                   | Some a \<Rightarrow>
                       let taken = s\<lparr>currentLine := statmentLine, currentMemoryAddress := a\<rparr> in
                       if instruction = ''J'' then Inr (True, taken)
                       else if instruction = ''JP'' then
                         (if \<not> (eflags s AND push_bit SF 1 \<noteq> 0) then Inr (True, taken)
                          else Inr (False, s))
                       else if instruction = ''JN'' then
                         (if eflags s AND push_bit SF 1 \<noteq> 0 then Inr (True, taken)
                          else Inr (False, s))
                       else if instruction = ''JZ'' then
                         (if eflags s AND push_bit ZF 1 \<noteq> 0 then Inr (True, taken)
                          else Inr (False, s))
                       else Inr (False, s)))))"

text \<open>The fall-through at the end of \<open>interpretNextLine\<close>.\<close>

definition advance :: "Interpreter \<Rightarrow> Interpreter" where
  "advance s =
     s\<lparr>currentMemoryAddress := currentMemoryAddress s + byteSize (statements s ! currentLine s),
       currentLine := currentLine s + 1\<rparr>"

definition interpretNextLine :: "Interpreter \<Rightarrow> Interpreter result" where
  "interpretNextLine s0 =
     (let s = s0\<lparr>executedLines := executedLines s0 + 1\<rparr> in
      if isAtEnd s then Inr s
      else
        let tokens = splitStatment (removeComments (val (statements s ! currentLine s))) in
        if length tokens = 0 then Inr (s\<lparr>currentLine := currentLine s + 1\<rparr>)
        else
          let labelled = (length tokens > 1 \<and> tokens ! 1 \<in> set keywords_list);
              instruction = (if labelled then tokens ! 1 else tokens ! 0);
              currentIndex = (if labelled then 1 else 0 :: nat)
          in
          if instruction \<in> set keywords_list then
            (case (if isInstructionRR instruction
                   then registerRegister instruction tokens (currentIndex + 1) s
                   else Inr s) of
               Inl e \<Rightarrow> Inl e
             | Inr s1 \<Rightarrow>
                 (case (if isInstructionRM instruction
                        then registerMemory instruction tokens (currentIndex + 1) s1
                        else Inr s1) of
                    Inl e \<Rightarrow> Inl e
                  | Inr s2 \<Rightarrow>
                      (case (if length instruction > 0 \<and> hd instruction = CHR ''J''
                             then jump instruction tokens (currentIndex + 1) s2
                             else Inr (False, s2)) of
                         Inl e \<Rightarrow> Inl e
                       | Inr (returned, s3) \<Rightarrow> if returned then Inr s3 else Inr (advance s3))))
          else
            Inl (RuntimeError (UnrecognizedInstruction (currentLine s + 1) instruction), s))"

text \<open>Every call that returns has counted itself once.\<close>

lemma storeAndFlag_executedLines: "executedLines (storeAndFlag s r v) = executedLines s"
  by (simp add: storeAndFlag_def updateEflags_def Let_def)

lemma registerRegister_executedLines:
  "registerRegister i ts k s = Inr s' \<Longrightarrow> executedLines s' = executedLines s"
  unfolding registerRegister_def Let_def
  by (auto simp: storeAndFlag_executedLines updateEflags_def
           split: if_splits option.splits)

lemma registerMemory_executedLines:
  "registerMemory i ts k s = Inr s' \<Longrightarrow> executedLines s' = executedLines s"
  unfolding registerMemory_def Let_def
  by (auto simp: storeAndFlag_executedLines updateEflags_def compareMemory_def
                 setNumberInMemory_def Let_def
           split: if_splits option.splits sum.splits)

lemma jump_executedLines:
  "jump i ts k s = Inr (r, s') \<Longrightarrow> executedLines s' = executedLines s"
  unfolding jump_def Let_def
  by (auto split: if_splits option.splits sum.splits)

lemma interpretNextLine_executedLines:
  assumes "interpretNextLine s = Inr s'"
  shows "executedLines s' = executedLines s + 1"
  using assms unfolding interpretNextLine_def Let_def
  by (auto simp: advance_def split: if_splits sum.splits
           dest!: registerRegister_executedLines registerMemory_executedLines
                  jump_executedLines)

text \<open>The loop \<open>while (!this.isAtEnd() && this.executedLines < MAX_LINES)\<close> of
  \<open>interpret\<close>, and the method \<open>interpret\<close> itself (\<open>interpretProgram\<close> here).\<close>

function interpret_loop :: "Interpreter \<Rightarrow> Interpreter result" where
  "interpret_loop s =
     (if \<not> isAtEnd s \<and> executedLines s < MAX_LINES then
        (case interpretNextLine s of
           Inl e \<Rightarrow> Inl e
         | Inr s' \<Rightarrow> interpret_loop s')
      else Inr s)"
  by pat_completeness auto
termination
proof (relation "measure (\<lambda>s. MAX_LINES - executedLines s)")
  show "wf (measure (\<lambda>s. MAX_LINES - executedLines s))"
    by simp
next
  fix s s' :: Interpreter
  assume "\<not> isAtEnd s \<and> executedLines s < MAX_LINES" and "interpretNextLine s = Inr s'"
  then show "(s', s) \<in> measure (\<lambda>s. MAX_LINES - executedLines s)"
    using interpretNextLine_executedLines [of s s'] by auto
qed

declare interpret_loop.simps [simp del]

definition interpretProgram :: "Interpreter \<Rightarrow> Interpreter result" where
  "interpretProgram s =
     (case preprocess s of
        Inl e \<Rightarrow> Inl e
      | Inr s0 \<Rightarrow>
          (case interpret_loop s0 of
             Inl e \<Rightarrow> Inl e
           | Inr s1 \<Rightarrow>
               if executedLines s1 \<ge> MAX_LINES then Inl (RuntimeError ExecutionLimit, s1)
               else Inr s1))"

subsection \<open>Observing a run\<close>

text \<open>\<open>n\<close> successive calls of \<open>interpretNextLine\<close>, as the "Next line" button of the
  page makes them; the first exception ends the sequence.\<close>

fun interpretLines :: "nat \<Rightarrow> Interpreter \<Rightarrow> Interpreter result" where
  "interpretLines 0 s = Inr s"
| "interpretLines (Suc n) s =
     (case interpretNextLine s of
        Inl e \<Rightarrow> Inl e
      | Inr s' \<Rightarrow> interpretLines n s')"

text \<open>\<open>new Interpreter(code)\<close>, \<open>preprocess()\<close>, then \<open>n\<close> steps.\<close>

definition runLines :: "nat \<Rightarrow> string \<Rightarrow> Interpreter result" where
  "runLines n code =
     (case preprocess (newInterpreter code) of
        Inl e \<Rightarrow> Inl e
      | Inr s \<Rightarrow> interpretLines n s)"

text \<open>The two flags as the conditional jumps test them, and a register as a signed value.\<close>

definition zeroFlag :: "Interpreter \<Rightarrow> bool" where
  "zeroFlag s = (eflags s AND push_bit ZF 1 \<noteq> 0)"

definition signFlag :: "Interpreter \<Rightarrow> bool" where
  "signFlag s = (eflags s AND push_bit SF 1 \<noteq> 0)"

definition register :: "nat \<Rightarrow> Interpreter \<Rightarrow> int" where
  "register r s = sint (registers s ! r)"

text \<open>The accumulated address of statement \<open>i\<close>: the footprints of the statements
  before it, added up.\<close>

definition statementAddress :: "Statment list \<Rightarrow> nat \<Rightarrow> int" where
  "statementAddress stmts i = sum_list (map byteSize (take i stmts))"

text \<open>A source text of several lines.\<close>

definition unlines :: "string list \<Rightarrow> string" where
  "unlines ls = js_join [CHR 0x0A] ls"

section \<open>Evaluation on concrete programs\<close>

lemma replicate_2: "replicate 2 x = [x, x]"
  by (simp add: numeral_2_eq_2)

lemma replicate_4: "replicate 4 x = [x, x, x, x]"
  by (simp add: eval_nat_numeral)

lemma replicate_16: "replicate 16 x = [x, x, x, x, x, x, x, x, x, x, x, x, x, x, x, x]"
  by (simp add: eval_nat_numeral)

lemmas string_defs = splitStatment_def removeComments_def js_trim_def isWhiteSpace_def

lemmas number_defs = getNumberInParen_def Number_js_def isDigit_def js_trim_def
  isWhiteSpace_def digitsValue_def

lemmas layout_defs = newInterpreter_def unlines_def preprocess_def preprocess_loop.simps
  isAtEnd_def preprocessStatement_def
  addLabel_def keywords_list_def isLabelDefined_def preprocess_DC_def preprocess_DS_def
  preprocess_default_def appendBytes_def numberToBytes_def getSizeOfInstruction_def
  isInstructionRR_def rrKeywords_def Let_def replicate_2 replicate_4 replicate_16

lemmas step_defs = interpretNextLine_def isAtEnd_def keywords_list_def isInstructionRR_def
  isInstructionRM_def rrKeywords_def rmKeywords_def registerRegister_def registerMemory_def
  jump_def advance_def getMemoryAddr_def getNumberFromMemory_def bytesToNumber_def elemAt_def
  storeAndFlag_def updateEflags_def compareMemory_def getStatmentLine_def ZF_def SF_def Let_def

lemma interpretLines_numeral:
  "interpretLines (numeral k) s =
     (case interpretNextLine s of
        Inl e \<Rightarrow> Inl e
      | Inr s' \<Rightarrow> interpretLines (pred_numeral k) s')"
  by (simp add: numeral_eq_Suc)

lemma interpretLines_1: "interpretLines 1 s = interpretNextLine s"
  by (simp split: sum.splits)

lemmas run_defs = interpretLines_numeral interpretLines_1 step_defs string_defs number_defs
  numberToBytes_def replicate_16 replicate_4

section \<open>What \<open>isAlphaNumeric\<close> accepts\<close>

lemma nat_below_10:
  assumes "n < (10::nat)"
  obtains "n = 0" | "n = 1" | "n = 2" | "n = 3" | "n = 4" | "n = 5" | "n = 6" | "n = 7"
    | "n = 8" | "n = 9"
  using assms by atomize_elim arith

lemma one_digit_accepted: "n < 10 \<Longrightarrow> indexAccepted (string_of_nat n)"
  by (erule nat_below_10)
     (simp_all add: indexAccepted_def js_str_ge_def js_str_le_def string_of_nat.simps)

lemma two_digits_accepted:
  assumes "1 \<le> k" and "k \<le> 8"
  shows "indexAccepted [''0123456789'' ! k, c]"
proof -
  from assms have "k < 10" by simp
  then show ?thesis
    using assms
    by (elim nat_below_10) (simp_all add: indexAccepted_def js_str_ge_def js_str_le_def)
qed

lemma index_below_90_accepted:
  assumes "n < 90"
  shows "indexAccepted (string_of_nat n)"
proof (cases "n < 10")
  case True
  then show ?thesis by (rule one_digit_accepted)
next
  case False
  with assms have k: "1 \<le> n div 10" "n div 10 \<le> 8" "n div 10 < 10"
    by simp_all
  have "string_of_nat n = string_of_nat (n div 10) @ [''0123456789'' ! (n mod 10)]"
    using False by (subst string_of_nat.simps) simp
  also have "string_of_nat (n div 10) = [''0123456789'' ! (n div 10)]"
    using k(3) by (subst string_of_nat.simps) simp
  finally show ?thesis
    using two_digits_accepted [OF k(1) k(2)] by simp
qed

lemma index_90_rejected: "\<not> indexAccepted (string_of_nat 90)"
  by (simp add: indexAccepted_def js_str_ge_def js_str_le_def string_of_nat.simps)

text \<open>The characters of the label play no part: a label passes exactly when it has at
  most 90 of them, 90 being the first index whose decimal string is not below \<open>"9"\<close>.\<close>

lemma isAlphaNumeric_iff_length: "isAlphaNumeric v \<longleftrightarrow> length v \<le> 90"
proof -
  have "isAlphaNumeric v \<longleftrightarrow> (\<forall>n<length v. indexAccepted (string_of_nat n))"
    unfolding isAlphaNumeric_def list_all_iff by auto
  also have "\<dots> \<longleftrightarrow> length v \<le> 90"
  proof
    assume all: "\<forall>n<length v. indexAccepted (string_of_nat n)"
    show "length v \<le> 90"
    proof (rule ccontr)
      assume "\<not> length v \<le> 90"
      then have "90 < length v" by simp
      with all index_90_rejected show False by blast
    qed
  next
    assume "length v \<le> 90"
    then show "\<forall>n<length v. indexAccepted (string_of_nat n)"
      using index_below_90_accepted by auto
  qed
  finally show ?thesis .
qed

section \<open>Properties of the byte encoding\<close>

lemma reassemble_word:
  fixes w :: "32 word"
  shows "push_bit 24 (signed_drop_bit 24 w AND 0xff) OR push_bit 16 (signed_drop_bit 16 w AND 0xff)
         OR push_bit 8 (signed_drop_bit 8 w AND 0xff) OR (w AND 0xff) = w"
proof -
  have m: "(0xff :: 32 word) = mask 8"
    by (simp add: mask_eq_exp_minus_1)
  show ?thesis
    unfolding m
  proof (rule bit_word_eqI)
    fix n :: nat
    assume "n < LENGTH(32)"
    then show "bit (push_bit 24 (signed_drop_bit 24 w AND mask 8)
                    OR push_bit 16 (signed_drop_bit 16 w AND mask 8)
                    OR push_bit 8 (signed_drop_bit 8 w AND mask 8) OR (w AND mask 8)) n
               = bit w n"
      by (cases "n < 8"; cases "n < 16"; cases "n < 24") (auto simp add: bit_simps)
  qed
qed

lemma byte_val_shifted:
  fixes w :: "32 word"
  shows "sint (signed_drop_bit n w AND 0xff) = (sint w div 2 ^ n) mod 256"
proof -
  have m: "(0xff :: 32 word) = mask 8"
    by (simp add: mask_eq_exp_minus_1)
  have "sint (signed_drop_bit n w AND mask 8) = sint (take_bit 8 (signed_drop_bit n w))"
    by (simp add: take_bit_eq_mask)
  also have "\<dots> = take_bit 8 (sint (signed_drop_bit n w))"
    by (simp add: sint_uint unsigned_take_bit_eq signed_take_bit_eq_if_positive bit_simps
                  take_bit_signed_take_bit)
  finally show ?thesis
    unfolding m by (simp add: sint_signed_drop_bit_eq drop_bit_eq_div take_bit_eq_mod)
qed

lemma byte_val_low:
  fixes w :: "32 word"
  shows "sint (w AND 0xff) = sint w mod 256"
  using byte_val_shifted [of 0 w] by simp

lemma sint_word_of_int_32:
  assumes "- (2 ^ 31) \<le> v" and "v < 2 ^ 31"
  shows "sint (word_of_int v :: 32 word) = v"
  using assms by (simp add: sint_sbintrunc' signed_take_bit_int_eq_self)

text \<open>
  C6. For every 32-bit signed integer \<open>v\<close>, decoding with \<open>bytesToNumber\<close> the four
  bytes that \<open>numberToBytes\<close> produces for \<open>v\<close> gives back exactly \<open>v\<close>, and the
  encoding is big-endian: byte 0 holds bits 31-24, byte 1 bits 23-16, byte 2 bits 15-8
  and byte 3 bits 7-0 of the two's complement representation.
\<close>

theorem bytes_roundtrip:
  assumes "- (2 ^ 31) \<le> v" and "v < 2 ^ 31"
  shows "bytesToNumber (map Some (numberToBytes (Num v))) = Inr v
         \<and> map byte.val (numberToBytes (Num v))
             = [(v div 2 ^ 24) mod 256, (v div 2 ^ 16) mod 256, (v div 2 ^ 8) mod 256, v mod 256]"
proof -
  define w :: "32 word" where "w = word_of_int v"
  have sw: "sint w = v"
    unfolding w_def using assms by (rule sint_word_of_int_32)
  have vals: "map byte.val (numberToBytes (Num v))
      = [(v div 2 ^ 24) mod 256, (v div 2 ^ 16) mod 256, (v div 2 ^ 8) mod 256, v mod 256]"
    by (simp only: numberToBytes_def ToInt32.simps w_def [symmetric] list.map
                   byte.select_convs byte_val_low sint_signed_drop_bit_eq drop_bit_eq_div sw)
  have "bytesToNumber (map Some (numberToBytes (Num v)))
      = Inr (sint (push_bit 24 (signed_drop_bit 24 w AND 0xff)
                   OR push_bit 16 (signed_drop_bit 16 w AND 0xff)
                   OR push_bit 8 (signed_drop_bit 8 w AND 0xff) OR (w AND 0xff)))"
    by (simp add: bytesToNumber_def numberToBytes_def elemAt_def w_def [symmetric])
  with reassemble_word [of w] sw vals show ?thesis
    by simp
qed

theorem bytes_roundtrip_witness:
  "bytesToNumber (map Some (numberToBytes (Num (- 10)))) = Inr (- 10)
   \<and> map byte.val (numberToBytes (Num (- 10))) = [255, 255, 255, 246]"
  using bytes_roundtrip [of "- 10"] by simp

section \<open>The scenario \<open>ONE DC INTEGER(10)\<close>, \<open>A 0, ONE\<close>\<close>

definition scenario_program :: string where
  "scenario_program = unlines [''ONE DC INTEGER(10)'', ''A 0, ONE'']"

definition scenario_layout :: Interpreter where
  "scenario_layout =
     \<lparr>statements = [\<lparr>val = ''ONE DC INTEGER(10)'', byteSize = 4\<rparr>,
                    \<lparr>val = ''A 0, ONE'', byteSize = 4\<rparr>],
      registers = replicate 16 0,
      eflags = 0,
      bytes = numberToBytes (Num 10) @ replicate 4 \<lparr>byte.val = 0, type = INSTRUCTION\<rparr>,
      labels = [\<lparr>label = ''ONE'', line = 0, address = 0\<rparr>],
      currentLine = 0, executedLines = 0, currentMemoryAddress = 0\<rparr>"

lemma scenario_preprocess: "preprocess (newInterpreter scenario_program) = Inr scenario_layout"
  by (simp add: scenario_program_def scenario_layout_def layout_defs string_defs number_defs
                isAlphaNumeric_iff_length)

lemma scenario_step_1:
  "interpretLines 1 scenario_layout
     = Inr (scenario_layout\<lparr>currentLine := 1, executedLines := 1, currentMemoryAddress := 4\<rparr>)"
  by (simp add: scenario_layout_def run_defs)

lemma scenario_step_2:
  "interpretLines 2 scenario_layout
     = Inr (scenario_layout\<lparr>registers := (replicate 16 0)[0 := 10], currentLine := 2,
              executedLines := 2, currentMemoryAddress := 8\<rparr>)"
  by (simp add: scenario_layout_def run_defs)

text \<open>
  C9, as stated, fails: after \<open>preprocess()\<close> and exactly one call of
  \<open>interpretNextLine()\<close> register 0 is still 0, not 10. The first call is spent on the
  line \<open>ONE DC INTEGER(10)\<close>, which the dispatch recognises as a keyword line and
  falls through.
\<close>

theorem scenario_after_one_step:
  "map_sum fst (register 0) (runLines 1 scenario_program) = Inr 0"
  unfolding runLines_def scenario_preprocess sum.case scenario_step_1
  by (simp add: register_def scenario_layout_def)

text \<open>
  C9, amended. For the program whose two lines are \<open>ONE DC INTEGER(10)\<close> and
  \<open>A 0, ONE\<close>: after \<open>preprocess()\<close> memory bytes 0-3 hold the big-endian encoding
  of 10 and the label \<open>ONE\<close> resolves to address 0; after exactly two calls of
  \<open>interpretNextLine()\<close> (the first steps over the \<open>DC\<close> line) register 0 equals 10,
  with the Zero flag false and the Sign flag false.
\<close>

theorem scenario_after_two_steps:
  "\<exists>s0 s2. preprocess (newInterpreter scenario_program) = Inr s0
     \<and> map byte.val (take 4 (bytes s0)) = [0, 0, 0, 10]
     \<and> getMemoryAddr s0 ''ONE'' = Inr (Some 0)
     \<and> interpretLines 2 s0 = Inr s2
     \<and> register 0 s2 = 10 \<and> \<not> zeroFlag s2 \<and> \<not> signFlag s2"
proof (intro exI conjI)
  show "preprocess (newInterpreter scenario_program) = Inr scenario_layout"
    by (rule scenario_preprocess)
  show "interpretLines 2 scenario_layout
     = Inr (scenario_layout\<lparr>registers := (replicate 16 0)[0 := 10], currentLine := 2,
              executedLines := 2, currentMemoryAddress := 8\<rparr>)"
    by (rule scenario_step_2)
  show "map byte.val (take 4 (bytes scenario_layout)) = [0, 0, 0, 10]"
    by (simp add: scenario_layout_def numberToBytes_def)
  show "getMemoryAddr scenario_layout ''ONE'' = Inr (Some 0)"
    by (simp add: scenario_layout_def getMemoryAddr_def isDigit_def)
qed (simp_all add: register_def zeroFlag_def signFlag_def scenario_layout_def)

section \<open>Label validation\<close>

text \<open>
  C4 says that a label with a character that is neither a letter nor a digit makes
  \<open>preprocess()\<close> throw the "must be alpha numberic" error. The code does not do that:
  for the one-line program \<open>A_B DC INTEGER(1)\<close> the layout pass succeeds and records
  the label \<open>A_B\<close>, because \<open>isAlphaNumeric\<close> inspects the indices of the characters
  (see \<open>isAlphaNumeric_iff_length\<close>).
\<close>

theorem underscore_label_accepted:
  "\<exists>s. preprocess (newInterpreter ''A_B DC INTEGER(1)'') = Inr s
       \<and> map label (labels s) = [''A_B'']"
  by (simp add: layout_defs string_defs number_defs isAlphaNumeric_iff_length)

section \<open>Flags\<close>

lemma zeroFlag_updateEflags: "zeroFlag (updateEflags s v) \<longleftrightarrow> num_is_zero v"
  by (simp add: zeroFlag_def updateEflags_def ZF_def SF_def)

lemma signFlag_updateEflags: "signFlag (updateEflags s v) \<longleftrightarrow> num_is_negative v"
  by (simp add: signFlag_def updateEflags_def ZF_def SF_def)

text \<open>What \<open>updateEflags\<close> establishes for an integer result: Zero iff it is 0, Sign iff
  it is negative, never both.\<close>

lemma updateEflags_flag_law:
  "(zeroFlag (updateEflags s (Num v)) \<longleftrightarrow> v = 0)
   \<and> (signFlag (updateEflags s (Num v)) \<longleftrightarrow> v < 0)
   \<and> \<not> (zeroFlag (updateEflags s (Num v)) \<and> signFlag (updateEflags s (Num v)))"
  by (auto simp add: zeroFlag_updateEflags signFlag_updateEflags)

definition compare_greater_program :: string where
  "compare_greater_program =
     unlines [''X DC INTEGER(3)'', ''Y DC INTEGER(5)'', ''L 0, Y'', ''C 0, X'']"

text \<open>
  C7 says that after every flag-updating instruction Zero and Sign are never both set.
  The instruction \<open>C\<close> breaks this: after loading 5 into register 0 and comparing it
  with a memory word 3 (result of the subtraction: 2), both flags are set. Every other
  instruction, \<open>CR\<close> included, sets the flags through \<open>updateEflags\<close> alone and obeys
  the law (\<open>updateEflags_flag_law\<close>).
\<close>

theorem compare_sets_both_flags:
  "map_sum fst zeroFlag (runLines 4 compare_greater_program) = Inr True
   \<and> map_sum fst signFlag (runLines 4 compare_greater_program) = Inr True"
  by (simp add: runLines_def compare_greater_program_def layout_defs run_defs
                isAlphaNumeric_iff_length zeroFlag_def signFlag_def)

section \<open>Mapping an address back to a statement\<close>

lemma statementAddress_0: "statementAddress stmts 0 = 0"
  by (simp add: statementAddress_def)

lemma statementAddress_Suc:
  "statementAddress (st # sts) (Suc k) = byteSize st + statementAddress sts k"
  by (simp add: statementAddress_def)

lemma statementAddress_nonneg:
  "\<forall>st \<in> set sts. 0 \<le> byteSize st \<Longrightarrow> 0 \<le> statementAddress sts k"
  unfolding statementAddress_def
  by (rule sum_list_nonneg) (auto dest: in_set_takeD)

lemma loop_sound:
  "getStatmentLine_loop sts i0 a0 (Some a) = Some j \<Longrightarrow>
     \<exists>k<length sts. j = i0 + k \<and> a0 + statementAddress sts k = a \<and> 0 < byteSize (sts ! k)"
proof (induction sts arbitrary: i0 a0)
  case Nil
  then show ?case by simp
next
  case (Cons st sts)
  show ?case
  proof (cases "0 < byteSize st \<and> a = a0")
    case True
    with Cons.prems have "j = i0" by simp
    with True show ?thesis
      by (intro exI [of _ 0]) (simp add: statementAddress_0)
  next
    case False
    with Cons.prems have "getStatmentLine_loop sts (i0 + 1) (a0 + byteSize st) (Some a) = Some j"
      by (auto split: if_splits)
    from Cons.IH [OF this] obtain k where
      "k < length sts" "j = i0 + 1 + k" "a0 + byteSize st + statementAddress sts k = a"
      "0 < byteSize (sts ! k)"
      by blast
    then show ?thesis
      by (intro exI [of _ "Suc k"]) (simp add: statementAddress_Suc)
  qed
qed

lemma loop_complete:
  assumes "\<forall>st \<in> set sts. 0 \<le> byteSize st"
    and "k < length sts" and "a0 + statementAddress sts k = a" and "0 < byteSize (sts ! k)"
  shows "getStatmentLine_loop sts i0 a0 (Some a) = Some (i0 + k)"
  using assms
proof (induction sts arbitrary: i0 a0 k)
  case Nil
  then show ?case by simp
next
  case (Cons st sts)
  show ?case
  proof (cases k)
    case 0
    with Cons.prems show ?thesis
      by (simp add: statementAddress_0)
  next
    case (Suc k')
    from Cons.prems have nonneg: "\<forall>st \<in> set sts. 0 \<le> byteSize st" and st: "0 \<le> byteSize st"
      by simp_all
    from Cons.prems Suc have k': "k' < length sts" "0 < byteSize (sts ! k')"
      and a: "a0 + byteSize st + statementAddress sts k' = a"
      by (simp_all add: statementAddress_Suc)
    have rest: "0 \<le> statementAddress sts k'"
      using nonneg by (rule statementAddress_nonneg)
    have "getStatmentLine_loop sts (i0 + 1) (a0 + byteSize st) (Some a) = Some (i0 + 1 + k')"
      using nonneg k'(1) a k'(2) by (rule Cons.IH)
    moreover have "\<not> (0 < byteSize st \<and> a = a0)" and "\<not> a < a0"
      using a st rest by auto
    ultimately show ?thesis
      using Suc by simp
  qed
qed

text \<open>
  C8, amended. Provided no statement has a negative footprint: for every resolved
  jump-target byte address \<open>a\<close> (a number), \<open>getStatmentLine\<close> returns index \<open>i\<close> iff the
  accumulated address of statement \<open>i\<close> (the sum of the footprints before it) equals
  \<open>a\<close> exactly and statement \<open>i\<close>'s footprint is non-zero; and when there is no such
  statement (the address falls strictly inside or before a statement, or past the last
  boundary) it throws the invalid-jump-target runtime error naming the current line.
\<close>

theorem getStatmentLine_boundary:
  assumes "\<forall>st \<in> set (statements s). 0 \<le> byteSize st"
  shows "(getStatmentLine s (Some a) = Inr i \<longleftrightarrow>
            i < length (statements s) \<and> statementAddress (statements s) i = a
            \<and> byteSize (statements s ! i) \<noteq> 0)
         \<and> ((\<forall>i<length (statements s).
                \<not> (statementAddress (statements s) i = a \<and> byteSize (statements s ! i) \<noteq> 0))
              \<longrightarrow> getStatmentLine s (Some a)
                    = Inl (RuntimeError (InvalidJumpTarget (currentLine s + 1) a)))"
proof -
  have pos: "byteSize (statements s ! i) \<noteq> 0 \<longleftrightarrow> 0 < byteSize (statements s ! i)"
    if "i < length (statements s)" for i
    using assms that by (auto simp: less_le dest!: nth_mem)
  have iff: "getStatmentLine_loop (statements s) 0 0 (Some a) = Some i \<longleftrightarrow>
            i < length (statements s) \<and> statementAddress (statements s) i = a
            \<and> byteSize (statements s ! i) \<noteq> 0" for i
  proof
    assume "getStatmentLine_loop (statements s) 0 0 (Some a) = Some i"
    from loop_sound [OF this] show "i < length (statements s) \<and> statementAddress (statements s) i = a
            \<and> byteSize (statements s ! i) \<noteq> 0"
      by auto
  next
    assume r: "i < length (statements s) \<and> statementAddress (statements s) i = a
            \<and> byteSize (statements s ! i) \<noteq> 0"
    with pos [of i] have "0 < byteSize (statements s ! i)" by blast
    with loop_complete [OF assms, of i 0 a 0] r show "getStatmentLine_loop (statements s) 0 0 (Some a) = Some i"
      by simp
  qed
  have first: "getStatmentLine s (Some a) = Inr i \<longleftrightarrow>
            i < length (statements s) \<and> statementAddress (statements s) i = a
            \<and> byteSize (statements s ! i) \<noteq> 0"
    using iff [of i] by (auto simp: getStatmentLine_def split: option.splits)
  have second: "getStatmentLine s (Some a)
                    = Inl (RuntimeError (InvalidJumpTarget (currentLine s + 1) a))"
    if "\<forall>i<length (statements s).
                \<not> (statementAddress (statements s) i = a \<and> byteSize (statements s ! i) \<noteq> 0)"
  proof (cases "getStatmentLine_loop (statements s) 0 0 (Some a)")
    case None
    then show ?thesis by (simp add: getStatmentLine_def)
  next
    case (Some i)
    with iff [of i] that show ?thesis by blast
  qed
  from first second show ?thesis by blast
qed


text \<open>For an address that is \<open>undefined\<close> (an operand \<open>0(r)\<close> with \<open>r\<close> outside
  0..15) no statement matches, and building the error message fails first.\<close>

lemma getStatmentLine_undefined: "getStatmentLine s None = Inl TypeError"
proof -
  have "getStatmentLine_loop sts i a None = None" for sts i a
    by (induction sts arbitrary: i a) simp_all
  then show ?thesis
    by (simp add: getStatmentLine_def)
qed

theorem getStatmentLine_boundary_witness:
  "list_all (\<lambda>st. 0 \<le> byteSize st) (statements scenario_layout)
   \<and> getStatmentLine scenario_layout (Some 4) = Inr 1
   \<and> getStatmentLine scenario_layout (Some 2) = Inl (RuntimeError (InvalidJumpTarget 1 2))"
proof -
  have nonneg: "\<forall>st \<in> set (statements scenario_layout). 0 \<le> byteSize st"
    by (simp add: scenario_layout_def)
  have addr: "statementAddress (statements scenario_layout) 0 = 0"
    "statementAddress (statements scenario_layout) 1 = 4"
    by (simp_all add: scenario_layout_def statementAddress_def)
  have none: "\<forall>i<length (statements scenario_layout).
      \<not> (statementAddress (statements scenario_layout) i = 2
         \<and> byteSize (statements scenario_layout ! i) \<noteq> 0)"
  proof (intro allI impI)
    fix i
    assume "i < length (statements scenario_layout)"
    then have "i = 0 \<or> i = 1"
      by (auto simp add: scenario_layout_def)
    with addr show "\<not> (statementAddress (statements scenario_layout) i = 2
         \<and> byteSize (statements scenario_layout ! i) \<noteq> 0)"
      by auto
  qed
  have size: "1 < length (statements scenario_layout)"
    "byteSize (statements scenario_layout ! 1) \<noteq> 0"
    by (simp_all add: scenario_layout_def)
  from getStatmentLine_boundary [OF nonneg, of 4 1] addr size
  have "getStatmentLine scenario_layout (Some 4) = Inr 1"
    by simp
  moreover from getStatmentLine_boundary [OF nonneg, of 2 0] none
  have "getStatmentLine scenario_layout (Some 2) = Inl (RuntimeError (InvalidJumpTarget 1 2))"
    by (simp add: scenario_layout_def)
  ultimately show ?thesis
    using nonneg by (simp add: list_all_iff)
qed

definition shrinking_program :: string where
  "shrinking_program =
     unlines [''A DC 1*INTEGER(1)'', ''B DC -1*INTEGER(1)'', ''C DC INTEGER(1)'']"

text \<open>
  C8, as stated, fails when a footprint is negative, which a \<open>DC\<close> with a negative
  repeat count produces. In the layout of the three lines \<open>A DC 1*INTEGER(1)\<close>,
  \<open>B DC -1*INTEGER(1)\<close>, \<open>C DC INTEGER(1)\<close> the footprints are 4, -4 and 4, so
  statement 2 has accumulated address 0 and a non-zero footprint; yet for address 0
  \<open>getStatmentLine\<close> returns index 0, not 2.
\<close>

theorem later_boundary_not_found:
  "(case preprocess (newInterpreter shrinking_program) of
      Inl e \<Rightarrow> False
    | Inr s \<Rightarrow> getStatmentLine s (Some 0) = Inr 0
               \<and> statementAddress (statements s) 2 = 0
               \<and> byteSize (statements s ! 2) = 4)"
  by (simp add: shrinking_program_def layout_defs string_defs number_defs
                isAlphaNumeric_iff_length getStatmentLine_def statementAddress_def)

section \<open>Decoding register instructions\<close>

lemma keyword_not_numeric: "t \<in> set keywords_list \<Longrightarrow> Number_js t = Some NaN"
  by (auto simp: keywords_list_def number_defs)

lemma numeric_not_keyword: "Number_js t = Some (Num i) \<Longrightarrow> t \<notin> set keywords_list"
  using keyword_not_numeric [of t] by auto

lemma rm_keyword_facts:
  assumes "i \<in> set rmKeywords"
  shows "i \<in> set keywords_list" and "\<not> isInstructionRR i" and "isInstructionRM i"
    and "\<not> (length i > 0 \<and> hd i = CHR ''J'')"
  using assms by (auto simp: rmKeywords_def keywords_list_def isInstructionRR_def
                            rrKeywords_def isInstructionRM_def)

lemma rr_keyword_facts:
  assumes "i \<in> set rrKeywords"
  shows "i \<in> set keywords_list" and "isInstructionRR i" and "\<not> isInstructionRM i"
    and "\<not> (length i > 0 \<and> hd i = CHR ''J'')"
  using assms by (auto simp: rmKeywords_def keywords_list_def isInstructionRR_def
                            rrKeywords_def isInstructionRM_def)

lemma getMemoryAddr_executedLines [simp]:
  "getMemoryAddr (s\<lparr>executedLines := n\<rparr>) t = getMemoryAddr s t"
  by (simp add: getMemoryAddr_def cong: option.case_cong if_cong)

lemma getNumberFromMemory_executedLines [simp]:
  "getNumberFromMemory (s\<lparr>executedLines := n\<rparr>) a = getNumberFromMemory s a"
  by (simp add: getNumberFromMemory_def)

text \<open>Decoding a register-memory statement, with or without a leading label.\<close>

lemma interpretNextLine_registerMemory:
  assumes "currentLine s < length (statements s)"
    and "splitStatment (removeComments (val (statements s ! currentLine s)))
           = pre @ [instruction, t1, '','', t2]"
    and "length pre \<le> 1"
    and "instruction \<in> set rmKeywords"
    and "t1 \<notin> set keywords_list"
  shows "interpretNextLine s =
     (case registerMemory instruction (pre @ [instruction, t1, '','', t2]) (length pre + 1)
             (s\<lparr>executedLines := executedLines s + 1\<rparr>) of
        Inl e \<Rightarrow> Inl e
      | Inr s2 \<Rightarrow> Inr (advance s2))"
proof -
  from assms(3) consider "pre = []" | l where "pre = [l]"
    by (cases pre) auto
  then show ?thesis
  proof cases
    case 1
    with assms rm_keyword_facts [OF assms(4)] show ?thesis
      by (auto simp add: interpretNextLine_def isAtEnd_def Let_def split: sum.splits)
  next
    case 2
    with assms rm_keyword_facts [OF assms(4)] show ?thesis
      by (auto simp add: interpretNextLine_def isAtEnd_def Let_def split: sum.splits)
  qed
qed

lemma interpretNextLine_registerRegister:
  assumes "currentLine s < length (statements s)"
    and "splitStatment (removeComments (val (statements s ! currentLine s)))
           = pre @ [instruction, t1, '','', t2]"
    and "length pre \<le> 1"
    and "instruction \<in> set rrKeywords"
    and "t1 \<notin> set keywords_list"
  shows "interpretNextLine s =
     (case registerRegister instruction (pre @ [instruction, t1, '','', t2]) (length pre + 1)
             (s\<lparr>executedLines := executedLines s + 1\<rparr>) of
        Inl e \<Rightarrow> Inl e
      | Inr s2 \<Rightarrow> Inr (advance s2))"
proof -
  from assms(3) consider "pre = []" | l where "pre = [l]"
    by (cases pre) auto
  then show ?thesis
  proof cases
    case 1
    with assms rr_keyword_facts [OF assms(4)] show ?thesis
      by (auto simp add: interpretNextLine_def isAtEnd_def Let_def split: sum.splits)
  next
    case 2
    with assms rr_keyword_facts [OF assms(4)] show ?thesis
      by (auto simp add: interpretNextLine_def isAtEnd_def Let_def split: sum.splits)
  qed
qed


section \<open>The register-memory compare \<open>C\<close>\<close>

lemma advance_frame [simp]:
  "registers (advance s) = registers s" "bytes (advance s) = bytes s"
  "eflags (advance s) = eflags s"
  by (simp_all add: advance_def)

lemma flags_advance [simp]:
  "zeroFlag (advance s) = zeroFlag s" "signFlag (advance s) = signFlag s"
  by (simp_all add: zeroFlag_def signFlag_def)

lemma compareMemory_frame [simp]:
  "registers (compareMemory s a m) = registers s" "bytes (compareMemory s a m) = bytes s"
  by (simp_all add: compareMemory_def updateEflags_def Let_def)

text \<open>The flags the three extra lines of case \<open>'C'\<close> leave behind, exactly.\<close>

lemma zeroFlag_compareMemory: "zeroFlag (compareMemory s (Num r) m) \<longleftrightarrow> r = 0 \<or> r \<noteq> m"
  by (simp add: compareMemory_def updateEflags_def zeroFlag_def ZF_def SF_def Let_def)

lemma signFlag_compareMemory: "signFlag (compareMemory s (Num r) m) \<longleftrightarrow> r < 0 \<or> m \<le> r"
  by (auto simp add: compareMemory_def updateEflags_def signFlag_def ZF_def SF_def Let_def)

text \<open>
  One execution of \<open>C\<close> with a register \<open>r1\<close> among 0..15 and a resolved memory word
  \<open>m\<close>, exactly: registers and memory stay as they are; Zero ends up set iff the
  register is 0 or differs from \<open>m\<close>, Sign iff the register is negative or not below
  \<open>m\<close>.
\<close>

lemma compare_memory_exact:
  assumes "currentLine s < length (statements s)"
    and "splitStatment (removeComments (val (statements s ! currentLine s)))
           = pre @ [''C'', t1, '','', t2]"
    and "length pre \<le> 1"
    and "Number_js t1 = Some (Num i)" and "0 \<le> i" and "i < int (length (registers s))"
    and "getMemoryAddr s t2 = Inr addr" and "getNumberFromMemory s addr = Inr m"
  shows "\<exists>s'. interpretNextLine s = Inr s'
           \<and> registers s' = registers s \<and> bytes s' = bytes s
           \<and> (zeroFlag s' \<longleftrightarrow> register (nat i) s = 0 \<or> register (nat i) s \<noteq> m)
           \<and> (signFlag s' \<longleftrightarrow> register (nat i) s < 0 \<or> m \<le> register (nat i) s)"
proof -
  have rm: "''C'' \<in> set rmKeywords"
    by (simp add: rmKeywords_def)
  have t1: "t1 \<notin> set keywords_list"
    using assms(4) by (rule numeric_not_keyword)
  have "registerMemory ''C'' (pre @ [''C'', t1, '','', t2]) (length pre + 1)
          (s\<lparr>executedLines := executedLines s + 1\<rparr>)
        = Inr (compareMemory (s\<lparr>executedLines := executedLines s + 1\<rparr>)
                 (Num (register (nat i) s)) m)"
    using assms(3-8) by (simp add: registerMemory_def register_def nth_append)
  with interpretNextLine_registerMemory [OF assms(1-3) rm t1]
  have "interpretNextLine s
        = Inr (advance (compareMemory (s\<lparr>executedLines := executedLines s + 1\<rparr>)
                 (Num (register (nat i) s)) m))"
    by simp
  then show ?thesis
    by (simp add: zeroFlag_compareMemory signFlag_compareMemory)
qed

definition compare_negative_program :: string where
  "compare_negative_program =
     unlines [''N DC INTEGER(-5)'', ''Z DC INTEGER(0)'', ''L 0, N'', ''C 0, Z'']"

definition compare_negative_state :: Interpreter where
  "compare_negative_state =
     \<lparr>statements = [\<lparr>val = ''N DC INTEGER(-5)'', byteSize = 4\<rparr>,
                    \<lparr>val = ''Z DC INTEGER(0)'', byteSize = 4\<rparr>,
                    \<lparr>val = ''L 0, N'', byteSize = 4\<rparr>,
                    \<lparr>val = ''C 0, Z'', byteSize = 4\<rparr>],
      registers = (replicate 16 0)[0 := - 5],
      eflags = 128,
      bytes = numberToBytes (Num (- 5)) @ numberToBytes (Num 0)
              @ replicate 8 \<lparr>byte.val = 0, type = INSTRUCTION\<rparr>,
      labels = [\<lparr>label = ''N'', line = 0, address = 0\<rparr>,
                \<lparr>label = ''Z'', line = 1, address = 4\<rparr>],
      currentLine = 3, executedLines = 3, currentMemoryAddress = 12\<rparr>"

lemma replicate_8: "replicate 8 x = [x, x, x, x, x, x, x, x]"
  by (simp add: eval_nat_numeral)

lemma compare_negative_state_reached:
  "runLines 3 compare_negative_program = Inr compare_negative_state"
  by (simp add: runLines_def compare_negative_program_def compare_negative_state_def
                layout_defs run_defs isAlphaNumeric_iff_length replicate_8)

text \<open>In the state \<open>compare_negative_state\<close> (register 0 holds -5, the word at \<open>Z\<close> is
  0) the compare sets Sign, and Zero with it.\<close>

lemma compare_negative_example:
  "register 0 compare_negative_state = - 5
   \<and> getNumberFromMemory compare_negative_state (Some 4) = Inr 0
   \<and> (\<exists>s'. interpretNextLine compare_negative_state = Inr s' \<and> signFlag s' \<and> zeroFlag s')"
proof -
  have h1: "currentLine compare_negative_state < length (statements compare_negative_state)"
    by (simp add: compare_negative_state_def)
  have h2: "splitStatment (removeComments
              (val (statements compare_negative_state ! currentLine compare_negative_state)))
              = [] @ [''C'', ''0'', '','', ''Z'']"
    by (simp add: compare_negative_state_def string_defs)
  have h3: "length ([] :: string list) \<le> 1"
    by simp
  have h4: "Number_js ''0'' = Some (Num 0)"
    by (simp add: number_defs)
  have h5: "(0::int) \<le> 0" and h6: "0 < int (length (registers compare_negative_state))"
    by (simp_all add: compare_negative_state_def)
  have h7: "getMemoryAddr compare_negative_state ''Z'' = Inr (Some 4)"
    by (simp add: compare_negative_state_def getMemoryAddr_def isDigit_def)
  have h8: "getNumberFromMemory compare_negative_state (Some 4) = Inr 0"
    by (simp add: compare_negative_state_def getNumberFromMemory_def bytesToNumber_def
                  elemAt_def numberToBytes_def)
  have reg: "register 0 compare_negative_state = - 5"
    by (simp add: compare_negative_state_def register_def replicate_16)
  from compare_memory_exact [OF h1 h2 h3 h4 h5 h6 h7 h8] reg
  have "\<exists>s'. interpretNextLine compare_negative_state = Inr s' \<and> signFlag s' \<and> zeroFlag s'"
    by auto
  with reg h8 show ?thesis
    by blast
qed

definition compare_program :: string where
  "compare_program = unlines [''X DC INTEGER(-1)'', ''C 0, X'']"

definition compare_registers_program :: string where
  "compare_registers_program = unlines [''X DC INTEGER(-1)'', ''L 1, X'', ''CR 0, 1'']"

text \<open>The register-register compare on the same operands, 0 and -1, sets neither flag.\<close>

lemma sibling_CR_sets_neither:
  "map_sum fst (register 0) (runLines 3 compare_registers_program) = Inr 0
   \<and> map_sum fst (register 1) (runLines 3 compare_registers_program) = Inr (- 1)
   \<and> map_sum fst zeroFlag (runLines 3 compare_registers_program) = Inr False
   \<and> map_sum fst signFlag (runLines 3 compare_registers_program) = Inr False"
  by (simp add: runLines_def compare_registers_program_def layout_defs run_defs
                isAlphaNumeric_iff_length register_def signFlag_def zeroFlag_def)

text \<open>
  C1 says that after the register-memory compare \<open>C\<close> the flags are those of the
  register's own value: Zero iff \<open>registers[r1] == 0\<close>, Sign iff \<open>registers[r1] < 0\<close>.
  The code does not do that. With register 0 holding 0 and the memory word -1,
  \<open>C 0, X\<close> leaves Sign set although the register is not negative; with register 0
  holding -5 and the memory word 0 (the scenario of the claim), \<open>C 0, Z\<close> leaves Zero
  set although the register is not zero. The line \<open>this.eflags ^= ...\<close> toggles the two
  bits that \<open>updateEflags\<close> has just computed instead of clearing them, so the bits
  of the register are ORed onto the inverted flags of the subtraction.
\<close>

theorem compare_flags_not_the_registers:
  "map_sum fst (register 0) (runLines 2 compare_program) = Inr 0
   \<and> map_sum fst signFlag (runLines 2 compare_program) = Inr True
   \<and> map_sum fst (register 0) (runLines 4 compare_negative_program) = Inr (- 5)
   \<and> map_sum fst zeroFlag (runLines 4 compare_negative_program) = Inr True"
  by (simp add: runLines_def compare_program_def compare_negative_program_def layout_defs
                run_defs isAlphaNumeric_iff_length register_def signFlag_def zeroFlag_def)


section \<open>Division\<close>

text \<open>The quotient truncated toward zero, for comparison with what the code computes.\<close>

definition truncating_quotient :: "int \<Rightarrow> int \<Rightarrow> int" where
  "truncating_quotient a b =
     (if (a < 0) = (b < 0) then \<bar>a\<bar> div \<bar>b\<bar> else - (\<bar>a\<bar> div \<bar>b\<bar>))"

lemma storeAndFlag_registers [simp]:
  "registers (storeAndFlag s r v) = regWrite (registers s) r v"
  by (simp add: storeAndFlag_def updateEflags_def Let_def)

text \<open>The quotient \<open>num_floor_div\<close> computes is the floor of the true quotient.\<close>

lemma num_floor_div_floor:
  "b \<noteq> 0 \<Longrightarrow> num_floor_div (Num a) (Num b) = Num \<lfloor>real_of_int a / real_of_int b\<rfloor>"
  by (simp add: floor_divide_of_int_eq)

lemma ToInt32_num_floor_div:
  "ToInt32 (num_floor_div (Num a) (Num b)) = (if b = 0 then 0 else word_of_int (a div b))"
  by simp

text \<open>
  C5, amended. For all 32-bit signed register operands, \<open>DR\<close> (and the register-memory
  form \<open>D\<close> with the memory word as divisor) writes to \<open>r1\<close> the floor of the true
  quotient, i.e. the quotient rounded toward minus infinity, wrapped to 32 bits; with a
  divisor of 0 it writes 0.
\<close>

theorem divide_writes_floor:
  assumes "currentLine s < length (statements s)"
    and "splitStatment (removeComments (val (statements s ! currentLine s)))
           = pre @ [instruction, t1, '','', t2]"
    and "length pre \<le> 1"
    and "Number_js t1 = Some (Num i)" and "0 \<le> i" and "i < int (length (registers s))"
  shows "(instruction = ''DR'' \<and> Number_js t2 = Some (Num j) \<and> 0 \<le> j
            \<and> j < int (length (registers s))
          \<longrightarrow> (\<exists>s'. interpretNextLine s = Inr s'
                 \<and> registers s' = (registers s)
                      [nat i := (if register (nat j) s = 0 then 0
                                 else word_of_int
                                   \<lfloor>real_of_int (register (nat i) s)
                                     / real_of_int (register (nat j) s)\<rfloor>)]))
       \<and> (instruction = ''D'' \<and> getMemoryAddr s t2 = Inr addr
            \<and> getNumberFromMemory s addr = Inr m
          \<longrightarrow> (\<exists>s'. interpretNextLine s = Inr s'
                 \<and> registers s' = (registers s)
                      [nat i := (if m = 0 then 0
                                 else word_of_int
                                   \<lfloor>real_of_int (register (nat i) s) / real_of_int m\<rfloor>)]))"
  unfolding floor_divide_of_int_eq
proof (intro conjI impI)
  have t1: "t1 \<notin> set keywords_list"
    using assms(4) by (rule numeric_not_keyword)
  {
    assume h: "instruction = ''DR'' \<and> Number_js t2 = Some (Num j) \<and> 0 \<le> j
            \<and> j < int (length (registers s))"
    then have rr: "instruction \<in> set rrKeywords"
      by (simp add: rrKeywords_def)
    have "registerRegister instruction (pre @ [instruction, t1, '','', t2]) (length pre + 1)
            (s\<lparr>executedLines := executedLines s + 1\<rparr>)
          = Inr (storeAndFlag (s\<lparr>executedLines := executedLines s + 1\<rparr>) (Num i)
                   (num_floor_div (Num (register (nat i) s)) (Num (register (nat j) s))))"
      using assms(3-6) h
      by (simp add: registerRegister_def register_def nth_append del: num_floor_div.simps)
    with interpretNextLine_registerRegister [OF assms(1-3) rr t1]
    have "interpretNextLine s
          = Inr (advance (storeAndFlag (s\<lparr>executedLines := executedLines s + 1\<rparr>) (Num i)
                   (num_floor_div (Num (register (nat i) s)) (Num (register (nat j) s)))))"
      by simp
    then show "\<exists>s'. interpretNextLine s = Inr s'
                 \<and> registers s' = (registers s)
                      [nat i := (if register (nat j) s = 0 then 0
                                 else word_of_int (register (nat i) s div register (nat j) s))]"
      using assms(5,6) by (simp add: ToInt32_num_floor_div del: num_floor_div.simps)
  }
  {
    assume h: "instruction = ''D'' \<and> getMemoryAddr s t2 = Inr addr
            \<and> getNumberFromMemory s addr = Inr m"
    then have rm: "instruction \<in> set rmKeywords"
      by (simp add: rmKeywords_def)
    have "registerMemory instruction (pre @ [instruction, t1, '','', t2]) (length pre + 1)
            (s\<lparr>executedLines := executedLines s + 1\<rparr>)
          = Inr (storeAndFlag (s\<lparr>executedLines := executedLines s + 1\<rparr>) (Num i)
                   (num_floor_div (Num (register (nat i) s)) (Num m)))"
      using assms(3-6) h
      by (simp add: registerMemory_def register_def nth_append del: num_floor_div.simps)
    with interpretNextLine_registerMemory [OF assms(1-3) rm t1]
    have "interpretNextLine s
          = Inr (advance (storeAndFlag (s\<lparr>executedLines := executedLines s + 1\<rparr>) (Num i)
                   (num_floor_div (Num (register (nat i) s)) (Num m))))"
      by simp
    then show "\<exists>s'. interpretNextLine s = Inr s'
                 \<and> registers s' = (registers s)
                      [nat i := (if m = 0 then 0 else word_of_int (register (nat i) s div m))]"
      using assms(5,6) by (simp add: ToInt32_num_floor_div del: num_floor_div.simps)
  }
qed


definition divide_program :: string where
  "divide_program =
     unlines [''A DC INTEGER(-7)'', ''B DC INTEGER(2)'', ''L 1, A'', ''L 2, B'', ''DR 1, 2'']"

definition divide_state :: Interpreter where
  "divide_state =
     \<lparr>statements = [\<lparr>val = ''A DC INTEGER(-7)'', byteSize = 4\<rparr>,
                    \<lparr>val = ''B DC INTEGER(2)'', byteSize = 4\<rparr>,
                    \<lparr>val = ''L 1, A'', byteSize = 4\<rparr>,
                    \<lparr>val = ''L 2, B'', byteSize = 4\<rparr>,
                    \<lparr>val = ''DR 1, 2'', byteSize = 2\<rparr>],
      registers = (replicate 16 0)[1 := - 7, 2 := 2],
      eflags = 0,
      bytes = numberToBytes (Num (- 7)) @ numberToBytes (Num 2)
              @ replicate 10 \<lparr>byte.val = 0, type = INSTRUCTION\<rparr>,
      labels = [\<lparr>label = ''A'', line = 0, address = 0\<rparr>,
                \<lparr>label = ''B'', line = 1, address = 4\<rparr>],
      currentLine = 4, executedLines = 4, currentMemoryAddress = 16\<rparr>"

lemma replicate_10: "replicate 10 x = [x, x, x, x, x, x, x, x, x, x]"
  by (simp add: eval_nat_numeral)

lemma divide_state_reached: "runLines 4 divide_program = Inr divide_state"
  by (simp add: runLines_def divide_program_def divide_state_def layout_defs run_defs
                isAlphaNumeric_iff_length replicate_10)

theorem divide_writes_floor_witness:
  "register 1 divide_state = - 7 \<and> register 2 divide_state = 2
   \<and> (\<exists>s'. interpretNextLine divide_state = Inr s' \<and> register 1 s' = - 4)"
proof -
  have h1: "currentLine divide_state < length (statements divide_state)"
    by (simp add: divide_state_def)
  have h2: "splitStatment (removeComments (val (statements divide_state ! currentLine divide_state)))
              = [] @ [''DR'', ''1'', '','', ''2'']"
    by (simp add: divide_state_def string_defs)
  have h3: "length ([] :: string list) \<le> 1"
    by simp
  have h4: "Number_js ''1'' = Some (Num 1)" and h4': "Number_js ''2'' = Some (Num 2)"
    by (simp_all add: number_defs)
  have h5: "(0::int) \<le> 1" and h6: "1 < int (length (registers divide_state))"
    by (simp_all add: divide_state_def)
  have regs: "register 1 divide_state = - 7" "register 2 divide_state = 2"
    by (simp_all add: divide_state_def register_def replicate_16)
  from divide_writes_floor [OF h1 h2 h3 h4 h5 h6, of "2" "None" 0] h4' regs
  obtain s' where "interpretNextLine divide_state = Inr s'"
    and "registers s' = (registers divide_state)[1 := - 4]"
    by (auto simp add: divide_state_def)
  then have "interpretNextLine divide_state = Inr s' \<and> register 1 s' = - 4"
    by (simp add: register_def divide_state_def replicate_16)
  with regs show ?thesis
    by blast
qed

text \<open>
  C5, as stated, fails: the quotient is not truncated toward zero. Dividing -7 by 2
  with \<open>DR\<close> leaves -4 in the register; truncation toward zero gives -3.
\<close>

theorem divide_rounds_down:
  "map_sum fst (register 1) (runLines 5 divide_program) = Inr (- 4)
   \<and> truncating_quotient (- 7) 2 = - 3"
  by (simp add: runLines_def divide_program_def layout_defs run_defs isAlphaNumeric_iff_length
                register_def truncating_quotient_def)


section \<open>Layout of \<open>DS\<close>\<close>

lemma DS_is_keyword: "''DS'' \<in> set keywords_list"
  by (simp add: keywords_list_def)

lemma preprocessStatement_DS:
  assumes "currentLine s < length (statements s)"
    and "splitStatment (removeComments (val (statements s ! currentLine s)))
           = pre @ [''DS'', operand]"
    and "pre = [] \<and> operand \<notin> set keywords_list
         \<or> (\<exists>l. pre = [l] \<and> \<not> isLabelDefined s l \<and> isAlphaNumeric l)"
    and "0 \<le> cells" and "int (length (bytes s)) + cells \<le> 2 ^ 32 - 1"
    and "(if length (js_split (CHR ''*'') operand) = 2
            then (case Number_js (js_split (CHR ''*'') operand ! 0) of
                    None \<Rightarrow> None
                  | Some NaN \<Rightarrow> Some NaN
                  | Some (Num c) \<Rightarrow> Some (Num (c * 4)))
            else Some (Num 4)) = Some (Num cells)"
  shows "\<exists>s'. preprocessStatement True s = Inr (True, s')
           \<and> bytes s' = bytes s @ replicate (nat cells) \<lparr>byte.val = 0, type = DATA\<rparr>
           \<and> byteSize (statements s' ! currentLine s) = cells"
proof -
  from assms(4,5) have room: "length (bytes s) + nat cells \<le> 2 ^ 32 - 1"
    and small: "cells \<le> 2 ^ 32 - 1"
    by (simp_all add: nat_le_iff le_nat_iff)
  from assms(3) show ?thesis
  proof (elim disjE conjE exE)
    assume "pre = []" and "operand \<notin> set keywords_list"
    with assms(1,2,4,6) room small DS_is_keyword show ?thesis
      by (simp add: preprocessStatement_def addLabel_def preprocess_DS_def appendBytes_def Let_def)
  next
    fix l
    assume "pre = [l]" and "\<not> isLabelDefined s l" and "isAlphaNumeric l"
    with assms(1,2,4,6) room small DS_is_keyword show ?thesis
      by (simp add: preprocessStatement_def addLabel_def preprocess_DS_def appendBytes_def Let_def)
  qed
qed


text \<open>
  C3, amended. For every \<open>DS\<close> statement whose operand has the form
  \<open>count*text\<close> (exactly one \<open>*\<close>, \<open>count\<close> a decimal integer, with room left in
  the memory image), the layout pass allocates \<open>count*4\<close> zero-valued DATA bytes and
  records a byte footprint of \<open>count*4\<close> for that statement; a \<open>DS\<close> whose operand
  is not of that form (no \<open>*\<close>, a bare count included) allocates 4 bytes with
  footprint 4. The statement may carry a label that is new and passes
  \<open>isAlphaNumeric\<close>.
\<close>

theorem DS_allocation:
  assumes "currentLine s < length (statements s)"
    and "splitStatment (removeComments (val (statements s ! currentLine s)))
           = pre @ [''DS'', operand]"
    and "pre = [] \<and> operand \<notin> set keywords_list
         \<or> (\<exists>l. pre = [l] \<and> \<not> isLabelDefined s l \<and> isAlphaNumeric l)"
  shows "(js_split (CHR ''*'') operand = [c, r] \<and> Number_js c = Some (Num n) \<and> 0 \<le> n
            \<and> int (length (bytes s)) + 4 * n \<le> 2 ^ 32 - 1
          \<longrightarrow> (\<exists>s'. preprocessStatement True s = Inr (True, s')
                 \<and> bytes s' = bytes s @ replicate (nat (4 * n)) \<lparr>byte.val = 0, type = DATA\<rparr>
                 \<and> byteSize (statements s' ! currentLine s) = 4 * n))
       \<and> (length (js_split (CHR ''*'') operand) \<noteq> 2
            \<and> int (length (bytes s)) + 4 \<le> 2 ^ 32 - 1
          \<longrightarrow> (\<exists>s'. preprocessStatement True s = Inr (True, s')
                 \<and> bytes s' = bytes s @ replicate 4 \<lparr>byte.val = 0, type = DATA\<rparr>
                 \<and> byteSize (statements s' ! currentLine s) = 4))"
proof (intro conjI impI)
  assume h: "js_split (CHR ''*'') operand = [c, r] \<and> Number_js c = Some (Num n) \<and> 0 \<le> n
            \<and> int (length (bytes s)) + 4 * n \<le> 2 ^ 32 - 1"
  then have "0 \<le> 4 * n" and "int (length (bytes s)) + 4 * n \<le> 2 ^ 32 - 1"
    and "(if length (js_split (CHR ''*'') operand) = 2
            then (case Number_js (js_split (CHR ''*'') operand ! 0) of
                    None \<Rightarrow> None
                  | Some NaN \<Rightarrow> Some NaN
                  | Some (Num c) \<Rightarrow> Some (Num (c * 4)))
            else Some (Num 4)) = Some (Num (4 * n))"
    by simp_all
  with assms show "\<exists>s'. preprocessStatement True s = Inr (True, s')
                 \<and> bytes s' = bytes s @ replicate (nat (4 * n)) \<lparr>byte.val = 0, type = DATA\<rparr>
                 \<and> byteSize (statements s' ! currentLine s) = 4 * n"
    by (rule preprocessStatement_DS)
next
  assume h: "length (js_split (CHR ''*'') operand) \<noteq> 2
            \<and> int (length (bytes s)) + 4 \<le> 2 ^ 32 - 1"
  then have "(0::int) \<le> 4" and "int (length (bytes s)) + 4 \<le> 2 ^ 32 - 1"
    and "(if length (js_split (CHR ''*'') operand) = 2
            then (case Number_js (js_split (CHR ''*'') operand ! 0) of
                    None \<Rightarrow> None
                  | Some NaN \<Rightarrow> Some NaN
                  | Some (Num c) \<Rightarrow> Some (Num (c * 4)))
            else Some (Num 4)) = Some (Num 4)"
    by simp_all
  with assms have "\<exists>s'. preprocessStatement True s = Inr (True, s')
                 \<and> bytes s' = bytes s @ replicate (nat 4) \<lparr>byte.val = 0, type = DATA\<rparr>
                 \<and> byteSize (statements s' ! currentLine s) = 4"
    by (rule preprocessStatement_DS)
  then show "\<exists>s'. preprocessStatement True s = Inr (True, s')
                 \<and> bytes s' = bytes s @ replicate 4 \<lparr>byte.val = 0, type = DATA\<rparr>
                 \<and> byteSize (statements s' ! currentLine s) = 4"
    by simp
qed

theorem DS_allocation_witness:
  "\<exists>s'. preprocessStatement True (newInterpreter ''X DS 5*INTEGER'') = Inr (True, s')
        \<and> bytes s' = replicate 20 \<lparr>byte.val = 0, type = DATA\<rparr>
        \<and> byteSize (statements s' ! 0) = 20"
proof -
  let ?s = "newInterpreter ''X DS 5*INTEGER''"
  have h1: "currentLine ?s < length (statements ?s)"
    by (simp add: newInterpreter_def)
  have h2: "splitStatment (removeComments (val (statements ?s ! currentLine ?s)))
              = [''X''] @ [''DS'', ''5*INTEGER'']"
    by (simp add: newInterpreter_def string_defs)
  have h3: "[''X''] = [] \<and> ''5*INTEGER'' \<notin> set keywords_list
            \<or> (\<exists>l. [''X''] = [l] \<and> \<not> isLabelDefined ?s l \<and> isAlphaNumeric l)"
    by (simp add: newInterpreter_def isLabelDefined_def isAlphaNumeric_iff_length)
  have h4: "js_split (CHR ''*'') ''5*INTEGER'' = [''5'', ''INTEGER'']
            \<and> Number_js ''5'' = Some (Num 5) \<and> (0::int) \<le> 5
            \<and> int (length (bytes ?s)) + 4 * 5 \<le> 2 ^ 32 - 1"
    by (simp add: newInterpreter_def number_defs)
  from DS_allocation [OF h1 h2 h3, of "''5''" "''INTEGER''" 5] h4
  show ?thesis
    by (simp add: newInterpreter_def)
qed


text \<open>
  C3, as stated, fails: the operand form \<open>count\<close> is not a repeat count to the code.
  For \<open>X DS 5\<close> the layout pass allocates 4 bytes and records the footprint 4, not 20;
  the count is only read from an operand with a \<open>*\<close> in it.
\<close>

theorem bare_count_reserves_one_cell:
  "map_sum fst (length \<circ> bytes) (preprocess (newInterpreter ''X DS 5'')) = Inr 4
   \<and> map_sum fst (map byteSize \<circ> statements) (preprocess (newInterpreter ''X DS 5'')) = Inr [4]"
  by (simp add: layout_defs string_defs number_defs isAlphaNumeric_iff_length)

section \<open>The execution ceiling\<close>

lemma interpretLines_executedLines:
  "interpretLines n s = Inr s' \<Longrightarrow> executedLines s' = executedLines s + n"
proof (induction n arbitrary: s)
  case 0
  then show ?case by simp
next
  case (Suc n)
  then obtain s1 where s1: "interpretNextLine s = Inr s1" and rest: "interpretLines n s1 = Inr s'"
    by (auto split: sum.splits)
  from Suc.IH [OF rest] interpretNextLine_executedLines [OF s1] show ?case
    by simp
qed

lemma interpret_loop_unroll:
  assumes "interpretLines n s = Inr s'"
    and "executedLines s + n \<le> MAX_LINES"
    and "\<forall>k<n. \<exists>sk. interpretLines k s = Inr sk \<and> \<not> isAtEnd sk"
  shows "interpret_loop s = interpret_loop s'"
  using assms
proof (induction n arbitrary: s)
  case 0
  then show ?case by simp
next
  case (Suc n)
  from Suc.prems(1) obtain s1 where s1: "interpretNextLine s = Inr s1"
    and rest: "interpretLines n s1 = Inr s'"
    by (auto split: sum.splits)
  from Suc.prems(3) have "\<exists>sk. interpretLines 0 s = Inr sk \<and> \<not> isAtEnd sk"
    by blast
  then have here: "\<not> isAtEnd s"
    by simp
  have later: "\<forall>k<n. \<exists>sk. interpretLines k s1 = Inr sk \<and> \<not> isAtEnd sk"
  proof (intro allI impI)
    fix k
    assume "k < n"
    then have "Suc k < Suc n" by simp
    with Suc.prems(3) have "\<exists>sk. interpretLines (Suc k) s = Inr sk \<and> \<not> isAtEnd sk"
      by blast
    with s1 show "\<exists>sk. interpretLines k s1 = Inr sk \<and> \<not> isAtEnd sk"
      by simp
  qed
  have count: "executedLines s1 + n \<le> MAX_LINES"
    using interpretNextLine_executedLines [OF s1] Suc.prems(2) by simp
  have "interpret_loop s = interpret_loop s1"
    using here Suc.prems(2) s1 by (subst interpret_loop.simps) simp
  also have "\<dots> = interpret_loop s'"
    using rest count later by (rule Suc.IH)
  finally show ?case .
qed

lemma preprocess_loop_executedLines:
  "preprocess_loop d s = Inr s' \<Longrightarrow> executedLines s' = executedLines s"
proof (induction d s rule: preprocess_loop.induct)
  case (1 d s)
  show ?case
  proof (cases "isAtEnd s")
    case True
    with "1.prems" show ?thesis
      by (simp add: preprocess_loop.simps)
  next
    case False
    with "1.prems" obtain d1 s1 where step: "preprocessStatement d s = Inr (d1, s1)"
      and rest: "preprocess_loop d1 s1 = Inr s'"
      by (subst (asm) preprocess_loop.simps) (auto split: sum.splits)
    from "1.IH" [OF False step refl rest] preprocessStatement_advances [OF step]
    show ?thesis by simp
  qed
qed

lemma preprocess_executedLines:
  "preprocess s = Inr s' \<Longrightarrow> executedLines s' = executedLines s"
  by (auto simp: preprocess_def split: sum.splits dest: preprocess_loop_executedLines)

text \<open>A run whose first \<open>MAX_LINES\<close> steps all start before the end of the program ends
  in the execution-limit error, thrown in the state those steps lead to.\<close>

lemma interpretProgram_ceiling:
  assumes "preprocess s = Inr s0" and "executedLines s = 0"
    and "interpretLines MAX_LINES s0 = Inr s1"
    and "\<forall>k<MAX_LINES. \<exists>sk. interpretLines k s0 = Inr sk \<and> \<not> isAtEnd sk"
  shows "interpretProgram s = Inl (RuntimeError ExecutionLimit, s1)"
proof -
  have zero: "executedLines s0 = 0"
    using preprocess_executedLines [OF assms(1)] assms(2) by simp
  then have full: "executedLines s1 = MAX_LINES"
    using interpretLines_executedLines [OF assms(3)] by simp
  have "interpret_loop s0 = interpret_loop s1"
    using assms(3) _ assms(4) by (rule interpret_loop_unroll) (simp add: zero)
  also have "\<dots> = Inr s1"
    using full by (subst interpret_loop.simps) simp
  finally show ?thesis
    using assms(1) full by (simp add: interpretProgram_def)
qed

text \<open>
  C10. For every program that reaches the end-of-program position on exactly its 1000th
  executed step (after \<open>preprocess()\<close>, none of the first 1000 calls of
  \<open>interpretNextLine\<close> starts at the end, and the 1000th leaves the interpreter at the
  end), \<open>interpret()\<close> throws the step-ceiling runtime error instead of returning
  normally: the check after the loop only looks at the counter.
\<close>

theorem ceiling_hit_at_the_end:
  assumes "preprocess (newInterpreter code) = Inr s0"
    and "interpretLines 1000 s0 = Inr s1"
    and "\<forall>k<1000. \<exists>sk. interpretLines k s0 = Inr sk \<and> \<not> isAtEnd sk"
    and "isAtEnd s1"
  shows "interpretProgram (newInterpreter code) = Inl (RuntimeError ExecutionLimit, s1)"
  using assms(1) _ assms(2,3) [folded MAX_LINES_def]
  by (rule interpretProgram_ceiling) (simp add: newInterpreter_def)


subsection \<open>A program of blank lines\<close>

text \<open>Every statement of the program tokenizes to nothing.\<close>

definition blank :: "Interpreter \<Rightarrow> bool" where
  "blank s = list_all (\<lambda>st. splitStatment (removeComments (val st)) = []) (statements s)"

lemma blank_line:
  "blank s \<Longrightarrow> currentLine s < length (statements s) \<Longrightarrow>
     splitStatment (removeComments (val (statements s ! currentLine s))) = []"
  by (simp add: blank_def list_all_length)

lemma blank_preprocess_loop:
  assumes "blank s" and "currentLine s \<le> length (statements s)"
  shows "preprocess_loop d s = Inr (s\<lparr>currentLine := length (statements s)\<rparr>)"
  using assms
proof (induction "length (statements s) - currentLine s" arbitrary: s)
  case 0
  then have "currentLine s = length (statements s)" by simp
  then show ?case
    by (subst preprocess_loop.simps) (simp add: isAtEnd_def)
next
  case (Suc n)
  then have lt: "currentLine s < length (statements s)" by simp
  let ?s1 = "s\<lparr>currentLine := currentLine s + 1\<rparr>"
  have step: "preprocessStatement d s = Inr (d, ?s1)"
    using blank_line [OF Suc.prems(1) lt] by (simp add: preprocessStatement_def)
  have "preprocess_loop d ?s1 = Inr (?s1\<lparr>currentLine := length (statements ?s1)\<rparr>)"
    using Suc.hyps(2) Suc.prems(1) lt by (intro Suc.hyps(1)) (simp_all add: blank_def)
  then show ?case
    using lt step by (subst preprocess_loop.simps) (simp add: isAtEnd_def)
qed

lemma blank_interpretLines:
  assumes "blank s" and "currentLine s + k \<le> length (statements s)"
  shows "interpretLines k s
           = Inr (s\<lparr>executedLines := executedLines s + k, currentLine := currentLine s + k\<rparr>)"
  using assms
proof (induction k arbitrary: s)
  case 0
  then show ?case by simp
next
  case (Suc k)
  then have lt: "currentLine s < length (statements s)" by simp
  let ?s1 = "s\<lparr>executedLines := executedLines s + 1, currentLine := currentLine s + 1\<rparr>"
  have step: "interpretNextLine s = Inr ?s1"
    using blank_line [OF Suc.prems(1) lt] lt
    by (simp add: interpretNextLine_def isAtEnd_def Let_def)
  have "interpretLines k ?s1
          = Inr (?s1\<lparr>executedLines := executedLines ?s1 + k, currentLine := currentLine ?s1 + k\<rparr>)"
    using Suc.prems by (intro Suc.IH) (simp_all add: blank_def)
  with step show ?case
    by simp
qed

lemma js_split_replicate: "js_split c (replicate n c) = replicate (Suc n) []"
  by (induction n) simp_all

definition blank_program :: string where
  "blank_program = replicate 999 (CHR 0x0A)"

lemma blank_program_state:
  "blank (newInterpreter blank_program)"
  "length (statements (newInterpreter blank_program)) = 1000"
  "currentLine (newInterpreter blank_program) = 0"
  "currentMemoryAddress (newInterpreter blank_program) = 0"
  by (simp_all add: blank_def newInterpreter_def blank_program_def js_split_replicate
                    list_all_iff string_defs)

lemma blank_program_preprocess:
  "preprocess (newInterpreter blank_program) = Inr (newInterpreter blank_program)"
proof -
  have "preprocess_loop True (newInterpreter blank_program)
          = Inr (newInterpreter blank_program
                   \<lparr>currentLine := length (statements (newInterpreter blank_program))\<rparr>)"
    by (rule blank_preprocess_loop) (simp_all add: blank_program_state)
  then show ?thesis
    by (simp add: preprocess_def newInterpreter_def)
qed

theorem ceiling_hit_at_the_end_witness:
  "isAtEnd (newInterpreter blank_program\<lparr>executedLines := 1000, currentLine := 1000\<rparr>)
   \<and> interpretProgram (newInterpreter blank_program)
       = Inl (RuntimeError ExecutionLimit,
              newInterpreter blank_program\<lparr>executedLines := 1000, currentLine := 1000\<rparr>)"
proof -
  let ?s0 = "newInterpreter blank_program"
  have run: "interpretLines k ?s0 = Inr (?s0\<lparr>executedLines := k, currentLine := k\<rparr>)"
    if "k \<le> 1000" for k
    using blank_interpretLines [of ?s0 k] that
    by (simp add: blank_program_state) (simp add: newInterpreter_def)
  have h2: "interpretLines 1000 ?s0 = Inr (?s0\<lparr>executedLines := 1000, currentLine := 1000\<rparr>)"
    by (rule run) simp
  have h3: "\<forall>k<1000. \<exists>sk. interpretLines k ?s0 = Inr sk \<and> \<not> isAtEnd sk"
  proof (intro allI impI)
    fix k :: nat
    assume "k < 1000"
    then have "interpretLines k ?s0 = Inr (?s0\<lparr>executedLines := k, currentLine := k\<rparr>)"
      and "\<not> isAtEnd (?s0\<lparr>executedLines := k, currentLine := k\<rparr>)"
      using run [of k] by (simp_all add: isAtEnd_def blank_program_state)
    then show "\<exists>sk. interpretLines k ?s0 = Inr sk \<and> \<not> isAtEnd sk"
      by blast
  qed
  have h4: "isAtEnd (?s0\<lparr>executedLines := 1000, currentLine := 1000\<rparr>)"
    by (simp add: isAtEnd_def blank_program_state)
  from ceiling_hit_at_the_end [OF blank_program_preprocess h2 h3 h4] h4
  show ?thesis
    by simp
qed


subsection \<open>A program that jumps to itself\<close>

text \<open>The state after layout of a one-line program \<open>J target\<close>, with the labels the
  layout pass recorded.\<close>

definition selfJumpLayout :: "string \<Rightarrow> Label list \<Rightarrow> Interpreter" where
  "selfJumpLayout stmt ls =
     \<lparr>statements = [\<lparr>val = stmt, byteSize = 4\<rparr>],
      registers = replicate 16 0,
      eflags = 0,
      bytes = replicate 4 \<lparr>byte.val = 0, type = INSTRUCTION\<rparr>,
      labels = ls,
      currentLine = 0, executedLines = 0, currentMemoryAddress = 0\<rparr>"

lemma J_keyword_facts:
  "''J'' \<in> set keywords_list" "\<not> isInstructionRR ''J''" "\<not> isInstructionRM ''J''"
  "''0'' \<notin> set keywords_list"
  by (simp_all add: keywords_list_def isInstructionRR_def isInstructionRM_def rrKeywords_def
                    rmKeywords_def)

lemma selfJump_preprocess:
  assumes "js_split (CHR 0x0A) code = [stmt]"
    and "splitStatment (removeComments stmt) = [''J'', t] \<and> t \<notin> set keywords_list \<and> ls = []
         \<or> (\<exists>l. splitStatment (removeComments stmt) = [l, ''J'', t] \<and> isAlphaNumeric l
                \<and> ls = [\<lparr>label = l, line = 0, address = 0\<rparr>])"
  shows "preprocess (newInterpreter code) = Inr (selfJumpLayout stmt ls)"
proof -
  let ?laid = "selfJumpLayout stmt ls\<lparr>currentLine := 1, currentMemoryAddress := 4\<rparr>"
  have step: "preprocessStatement True (newInterpreter code) = Inr (False, ?laid)"
    using assms(2)
  proof (elim disjE conjE exE)
    assume "splitStatment (removeComments stmt) = [''J'', t]" and "t \<notin> set keywords_list"
      and "ls = []"
    with assms(1) J_keyword_facts show ?thesis
      by (simp add: newInterpreter_def selfJumpLayout_def preprocessStatement_def addLabel_def
            preprocess_default_def appendBytes_def getSizeOfInstruction_def Let_def)
  next
    fix l
    assume "splitStatment (removeComments stmt) = [l, ''J'', t]" and "isAlphaNumeric l"
      and "ls = [\<lparr>label = l, line = 0, address = 0\<rparr>]"
    with assms(1) J_keyword_facts show ?thesis
      by (simp add: newInterpreter_def selfJumpLayout_def preprocessStatement_def addLabel_def
            isLabelDefined_def preprocess_default_def appendBytes_def getSizeOfInstruction_def
            Let_def)
  qed
  have first: "\<not> isAtEnd (newInterpreter code)"
    using assms(1) by (simp add: isAtEnd_def newInterpreter_def)
  have last: "isAtEnd ?laid"
    by (simp add: isAtEnd_def selfJumpLayout_def)
  have "preprocess_loop True (newInterpreter code) = preprocess_loop False ?laid"
    using first step by (subst preprocess_loop.simps) simp
  also have "\<dots> = Inr ?laid"
    using last by (subst preprocess_loop.simps) simp
  finally show ?thesis
    by (simp add: preprocess_def selfJumpLayout_def)
qed

lemma selfJump_step:
  assumes "splitStatment (removeComments stmt) = [''J'', t] \<and> t \<notin> set keywords_list
           \<or> (\<exists>l. splitStatment (removeComments stmt) = [l, ''J'', t])"
    and "getMemoryAddr (selfJumpLayout stmt ls) t = Inr (Some 0)"
  shows "interpretNextLine (selfJumpLayout stmt ls\<lparr>executedLines := n\<rparr>)
           = Inr (selfJumpLayout stmt ls\<lparr>executedLines := n + 1\<rparr>)"
proof -
  have target: "getMemoryAddr (selfJumpLayout stmt ls\<lparr>executedLines := n + 1\<rparr>) t = Inr (Some 0)"
    using assms(2) by simp
  from assms(1) show ?thesis
  proof (elim disjE conjE exE)
    assume "splitStatment (removeComments stmt) = [''J'', t]" and "t \<notin> set keywords_list"
    with target J_keyword_facts show ?thesis
      by (simp add: interpretNextLine_def selfJumpLayout_def isAtEnd_def jump_def
                    getStatmentLine_def Let_def)
  next
    fix l
    assume "splitStatment (removeComments stmt) = [l, ''J'', t]"
    with target J_keyword_facts show ?thesis
      by (simp add: interpretNextLine_def selfJumpLayout_def isAtEnd_def jump_def
                    getStatmentLine_def Let_def)
  qed
qed

lemma selfJump_interpretLines:
  assumes "splitStatment (removeComments stmt) = [''J'', t] \<and> t \<notin> set keywords_list
           \<or> (\<exists>l. splitStatment (removeComments stmt) = [l, ''J'', t])"
    and "getMemoryAddr (selfJumpLayout stmt ls) t = Inr (Some 0)"
  shows "interpretLines k (selfJumpLayout stmt ls\<lparr>executedLines := n\<rparr>)
           = Inr (selfJumpLayout stmt ls\<lparr>executedLines := n + k\<rparr>)"
proof (induction k arbitrary: n)
  case 0
  then show ?case by simp
next
  case (Suc k)
  from selfJump_step [OF assms, of n] Suc.IH [of "n + 1"] show ?case
    by simp
qed

text \<open>
  A one-line program \<open>J t\<close> or \<open>l J t\<close> whose label, if there is one, passes
  \<open>isAlphaNumeric\<close> and whose target \<open>t\<close> resolves to address 0 in the laid-out
  program: \<open>interpret()\<close> ends by throwing the step-ceiling runtime error, in the state
  reached by exactly 1000 calls of \<open>interpretNextLine\<close>, where the execution counter
  equals 1000.
\<close>

lemma self_jump_reaches_ceiling:
  assumes "js_split (CHR 0x0A) code = [stmt]"
    and "splitStatment (removeComments stmt) = [''J'', t] \<and> t \<notin> set keywords_list \<and> ls = []
         \<or> (\<exists>l. splitStatment (removeComments stmt) = [l, ''J'', t] \<and> isAlphaNumeric l
                \<and> ls = [\<lparr>label = l, line = 0, address = 0\<rparr>])"
    and "getMemoryAddr (selfJumpLayout stmt ls) t = Inr (Some 0)"
  shows "\<exists>s0 s. preprocess (newInterpreter code) = Inr s0
           \<and> interpretLines 1000 s0 = Inr s
           \<and> executedLines s = 1000
           \<and> interpretProgram (newInterpreter code) = Inl (RuntimeError ExecutionLimit, s)"
proof -
  from assms(2) have form:
    "splitStatment (removeComments stmt) = [''J'', t] \<and> t \<notin> set keywords_list
     \<or> (\<exists>l. splitStatment (removeComments stmt) = [l, ''J'', t])"
    by blast
  let ?s0 = "selfJumpLayout stmt ls"
  have start: "?s0\<lparr>executedLines := 0\<rparr> = ?s0"
    by (simp add: selfJumpLayout_def)
  have pre: "preprocess (newInterpreter code) = Inr ?s0"
    using assms(1,2) by (rule selfJump_preprocess)
  have run: "interpretLines k ?s0 = Inr (?s0\<lparr>executedLines := k\<rparr>)" for k
    using selfJump_interpretLines [OF form assms(3), of k 0] by (simp add: start)
  have "\<not> isAtEnd (?s0\<lparr>executedLines := k\<rparr>)" for k
    by (simp add: isAtEnd_def selfJumpLayout_def)
  with run have busy: "\<forall>k<MAX_LINES. \<exists>sk. interpretLines k ?s0 = Inr sk \<and> \<not> isAtEnd sk"
    by blast
  have "interpretProgram (newInterpreter code)
          = Inl (RuntimeError ExecutionLimit, ?s0\<lparr>executedLines := MAX_LINES\<rparr>)"
    using pre _ run busy by (rule interpretProgram_ceiling) (simp add: newInterpreter_def)
  with pre run [of 1000] show ?thesis
    by (simp add: MAX_LINES_def)
qed

text \<open>The usual spellings of a self-jump all reach the ceiling.\<close>

lemma self_jump_examples:
  "\<exists>s. interpretProgram (newInterpreter ''J 0'') = Inl (RuntimeError ExecutionLimit, s)
        \<and> executedLines s = 1000"
  "\<exists>s. interpretProgram (newInterpreter ''LOOP J LOOP'') = Inl (RuntimeError ExecutionLimit, s)
        \<and> executedLines s = 1000"
  "\<exists>s. interpretProgram (newInterpreter ''LOOP J 0'') = Inl (RuntimeError ExecutionLimit, s)
        \<and> executedLines s = 1000"
  "\<exists>s. interpretProgram (newInterpreter ''J 0(0)'') = Inl (RuntimeError ExecutionLimit, s)
        \<and> executedLines s = 1000"
proof -
  have "\<exists>s0 s. preprocess (newInterpreter ''J 0'') = Inr s0 \<and> interpretLines 1000 s0 = Inr s
           \<and> executedLines s = 1000
           \<and> interpretProgram (newInterpreter ''J 0'') = Inl (RuntimeError ExecutionLimit, s)"
    by (rule self_jump_reaches_ceiling [where stmt = "''J 0''" and t = "''0''" and ls = "[]"])
       (simp_all add: string_defs keywords_list_def getMemoryAddr_def number_defs)
  then show "\<exists>s. interpretProgram (newInterpreter ''J 0'') = Inl (RuntimeError ExecutionLimit, s)
        \<and> executedLines s = 1000"
    by blast
  have "\<exists>s0 s. preprocess (newInterpreter ''LOOP J LOOP'') = Inr s0 \<and> interpretLines 1000 s0 = Inr s
           \<and> executedLines s = 1000
           \<and> interpretProgram (newInterpreter ''LOOP J LOOP'') = Inl (RuntimeError ExecutionLimit, s)"
    by (rule self_jump_reaches_ceiling [where stmt = "''LOOP J LOOP''" and t = "''LOOP''"
              and ls = "[\<lparr>label = ''LOOP'', line = 0, address = 0\<rparr>]"])
       (simp_all add: string_defs isAlphaNumeric_iff_length getMemoryAddr_def isDigit_def
                      selfJumpLayout_def)
  then show "\<exists>s. interpretProgram (newInterpreter ''LOOP J LOOP'') = Inl (RuntimeError ExecutionLimit, s)
        \<and> executedLines s = 1000"
    by blast
  have "\<exists>s0 s. preprocess (newInterpreter ''LOOP J 0'') = Inr s0 \<and> interpretLines 1000 s0 = Inr s
           \<and> executedLines s = 1000
           \<and> interpretProgram (newInterpreter ''LOOP J 0'') = Inl (RuntimeError ExecutionLimit, s)"
    by (rule self_jump_reaches_ceiling [where stmt = "''LOOP J 0''" and t = "''0''"
              and ls = "[\<lparr>label = ''LOOP'', line = 0, address = 0\<rparr>]"])
       (simp_all add: string_defs isAlphaNumeric_iff_length getMemoryAddr_def number_defs)
  then show "\<exists>s. interpretProgram (newInterpreter ''LOOP J 0'') = Inl (RuntimeError ExecutionLimit, s)
        \<and> executedLines s = 1000"
    by blast
  have "\<exists>s0 s. preprocess (newInterpreter ''J 0(0)'') = Inr s0 \<and> interpretLines 1000 s0 = Inr s
           \<and> executedLines s = 1000
           \<and> interpretProgram (newInterpreter ''J 0(0)'') = Inl (RuntimeError ExecutionLimit, s)"
    by (rule self_jump_reaches_ceiling [where stmt = "''J 0(0)''" and t = "''0(0)''" and ls = "[]"])
       (simp_all add: string_defs keywords_list_def getMemoryAddr_def number_defs
                      selfJumpLayout_def replicate_16)
  then show "\<exists>s. interpretProgram (newInterpreter ''J 0(0)'') = Inl (RuntimeError ExecutionLimit, s)
        \<and> executedLines s = 1000"
    by blast
qed

text \<open>A label of 91 letters.\<close>

definition long_label :: string where
  "long_label = ''AAAAAAAAAAAAAAAAAAAAAAAAAAAAAAAAAAAAAAAAAAAAAAAAAAAAAAAAAAAAAAAAAAAAAAAAAAAAAAAAAAAAAAAAAAA''"

definition long_label_program :: string where
  "long_label_program = long_label @ '' J '' @ long_label"

lemma long_label_facts:
  "length long_label = 91"
  "splitStatment (removeComments long_label_program) = [long_label, ''J'', long_label]"
  "js_split (CHR 0x0A) long_label_program = [long_label_program]"
  by (simp_all add: long_label_def long_label_program_def string_defs)

text \<open>
  C2 says that a program consisting solely of an unconditional jump to its own statement
  makes \<open>interpret()\<close> throw the step-ceiling runtime error after exactly 1000 calls of
  \<open>interpretNextLine\<close>. For the one-line program \<open>l J l\<close> with a label \<open>l\<close> of 91
  letters the code does not get that far: \<open>preprocess()\<close> throws the "must be alpha
  numberic" error for the label, with no step executed, because \<open>isAlphaNumeric\<close>
  rejects every label longer than 90 characters (\<open>isAlphaNumeric_iff_length\<close>). For the
  self-jumps whose label passes that check the claim holds
  (\<open>self_jump_reaches_ceiling\<close>).
\<close>

theorem long_label_self_jump_rejected:
  "interpretProgram (newInterpreter long_label_program)
     = Inl (PreprocessingError (LabelNotAlphaNumeric 1 long_label),
            newInterpreter long_label_program)"
proof -
  have "preprocessStatement True (newInterpreter long_label_program)
          = Inl (PreprocessingError (LabelNotAlphaNumeric 1 long_label),
                 newInterpreter long_label_program)"
    using J_keyword_facts
    by (simp add: newInterpreter_def long_label_facts preprocessStatement_def addLabel_def
                  isLabelDefined_def isAlphaNumeric_iff_length)
  moreover have "\<not> isAtEnd (newInterpreter long_label_program)"
    by (simp add: isAtEnd_def newInterpreter_def long_label_facts)
  ultimately have "preprocess_loop True (newInterpreter long_label_program)
          = Inl (PreprocessingError (LabelNotAlphaNumeric 1 long_label),
                 newInterpreter long_label_program)"
    by (subst preprocess_loop.simps) simp
  then show ?thesis
    by (simp add: interpretProgram_def preprocess_def)
qed


end
